theory Spec2Isabelle
  imports Main "HOL-Library.AList" "HOL-Library.Sublist"
begin

text \<open>
  The MetaTags plugin for Obsidian copies the front matter of template notes into the
  notes that reference them by a tag \<open>mt/Name\<close>, and propagates changes of a template
  to those notes. The repository holds three versions of the plugin class:
  \<^item> \<open>src/main.ts\<close>: templates live in the folder named by the base tag;
  \<^item> the first file of \<open>src/unnamed/part_000\<close> (lines 1-587): front matter is parsed
    from the text by a regular expression, templates are found by base name, a change
    that deletes properties is confirmed by the user;
  \<^item> the second file of \<open>src/unnamed/part_000\<close> (lines 588-1296): \<open>main.ts\<close> with a
    configurable template folder and optional pruning of empty properties.

  Each function below is translated from the file named in its heading; a function that
  is the same in two files is translated once. Functions of the second file of part_000
  that differ from \<open>main.ts\<close> carry the suffix \<open>_B\<close>, the state of the first file the
  suffix \<open>_A\<close>.
\<close>

section \<open>JavaScript values and objects\<close>

text \<open>
  Property values as the YAML front matter of a note delivers them: null, booleans, numbers,
  strings, sequences and nested mappings; \<open>JUndefined\<close> is what reading a missing property
  yields. Numbers are integers here (no NaN, no fractions), dates are not modelled.

  An object is the list of its own enumerable properties in enumeration order. A
  well-formed object has distinct keys. Enumeration order is insertion order: property
  names that are canonical array indices (which JavaScript enumerates first, in numeric
  order) are assumed not to occur among front-matter keys.
\<close>

datatype jsval =
    JUndefined
  | JNull
  | JBool bool
  | JNum int
  | JStr string
  | JArr "jsval list"
  | JObj "(string \<times> jsval) list"

type_synonym obj = "(string \<times> jsval) list"

definition keys :: "obj \<Rightarrow> string list" where
  "keys m = map fst m"

definition wf_obj :: "obj \<Rightarrow> bool" where
  "wf_obj m = distinct (keys m)"

text \<open>\<open>o.hasOwnProperty(k)\<close> for an object that does not shadow the method.\<close>

definition hasOwn :: "obj \<Rightarrow> string \<Rightarrow> bool" where
  "hasOwn m k = (k \<in> set (keys m))"

text \<open>The names every plain object inherits from \<open>Object.prototype\<close>.\<close>

definition object_prototype_keys :: "string list" where
  "object_prototype_keys =
     [''constructor'', ''__defineGetter__'', ''__defineSetter__'', ''hasOwnProperty'',
      ''__lookupGetter__'', ''__lookupSetter__'', ''isPrototypeOf'', ''propertyIsEnumerable'',
      ''toString'', ''valueOf'', ''__proto__'', ''toLocaleString'']"

text \<open>\<open>k in o\<close>: own or inherited.\<close>

definition in_op :: "string \<Rightarrow> obj \<Rightarrow> bool" where
  "in_op k m = (hasOwn m k \<or> k \<in> set object_prototype_keys)"

text \<open>
  \<open>o[k]\<close>. An inherited property is a function or the prototype object itself, never a
  YAML value: it is read as an opaque non-empty object.
\<close>

definition get_prop :: "obj \<Rightarrow> string \<Rightarrow> jsval" where
  "get_prop m k =
     (case map_of m k of
        Some v \<Rightarrow> v
      | None \<Rightarrow> if k \<in> set object_prototype_keys then JObj [] else JUndefined)"

text \<open>\<open>o[k] = v\<close>: an existing property keeps its place, a new one goes last.\<close>

definition set_prop :: "obj \<Rightarrow> string \<Rightarrow> jsval \<Rightarrow> obj" where
  "set_prop m k v = AList.update k v m"

text \<open>\<open>delete o[k]\<close>.\<close>

definition delete_prop :: "obj \<Rightarrow> string \<Rightarrow> obj" where
  "delete_prop m k = AList.delete k m"

text \<open>\<open>Object.assign(target, src)\<close>: the own properties of \<open>src\<close>, in order.\<close>

definition obj_assign :: "obj \<Rightarrow> obj \<Rightarrow> obj" where
  "obj_assign target src = fold (\<lambda>(k, v) acc. set_prop acc k v) src target"

text \<open>The object literals \<open>{ ...a }\<close> and \<open>{ ...a, ...b }\<close>.\<close>

definition spread1 :: "obj \<Rightarrow> obj" where
  "spread1 a = obj_assign [] a"

definition spread2 :: "obj \<Rightarrow> obj \<Rightarrow> obj" where
  "spread2 a b = obj_assign (obj_assign [] a) b"

text \<open>\<open>v === "" || v == null\<close> (\<open>== null\<close> holds of null and undefined).\<close>

definition empty_or_nullish :: "jsval \<Rightarrow> bool" where
  "empty_or_nullish v = (v = JStr [] \<or> v = JNull \<or> v = JUndefined)"

text \<open>\<open>v === "" || v === null\<close>.\<close>

definition empty_or_null :: "jsval \<Rightarrow> bool" where
  "empty_or_null v = (v = JStr [] \<or> v = JNull)"

text \<open>\<open>typeof v === 'boolean'\<close>.\<close>

fun is_boolean :: "jsval \<Rightarrow> bool" where
  "is_boolean (JBool b) = True"
| "is_boolean v = False"

text \<open>\<open>!v\<close>.\<close>

definition falsy :: "jsval \<Rightarrow> bool" where
  "falsy v = (v = JUndefined \<or> v = JNull \<or> v = JBool False \<or> v = JNum 0 \<or> v = JStr [])"

section \<open>JavaScript strings\<close>

text \<open>
  Strings are lists of 8-bit characters; the white space that \<open>trim\<close> and \<open>trimStart\<close>
  strip is the ASCII part of JavaScript's (tab, line feed, vertical tab, form feed,
  carriage return, space).
\<close>

definition is_ws :: "char \<Rightarrow> bool" where
  "is_ws c = (c \<in> set [CHR 0x09, CHR 0x0A, CHR 0x0B, CHR 0x0C, CHR 0x0D, CHR 0x20])"

definition trimStart :: "string \<Rightarrow> string" where
  "trimStart s = dropWhile is_ws s"

definition trimEnd :: "string \<Rightarrow> string" where
  "trimEnd s = rev (dropWhile is_ws (rev s))"

definition trim :: "string \<Rightarrow> string" where
  "trim s = trimEnd (trimStart s)"

text \<open>The first position at which \<open>pat\<close> starts in \<open>s\<close>.\<close>

fun first_occ :: "string \<Rightarrow> string \<Rightarrow> nat option" where
  "first_occ pat [] = (if pat = [] then Some 0 else None)"
| "first_occ pat (c # cs) =
     (if prefix pat (c # cs) then Some 0 else map_option Suc (first_occ pat cs))"

text \<open>\<open>s.indexOf(pat, fromIndex)\<close>: \<open>-1\<close> when there is none.\<close>

definition indexOf :: "string \<Rightarrow> string \<Rightarrow> int \<Rightarrow> int" where
  "indexOf s pat fromIndex =
     (let k = min (nat fromIndex) (length s)
      in case first_occ pat (drop k s) of None \<Rightarrow> - 1 | Some i \<Rightarrow> int (k + i))"

text \<open>\<open>s.includes(pat)\<close>.\<close>

definition includes_str :: "string \<Rightarrow> string \<Rightarrow> bool" where
  "includes_str s pat = (first_occ pat s \<noteq> None)"

text \<open>\<open>s.substring(i)\<close> for \<open>i \<ge> 0\<close>.\<close>

definition substring_from :: "string \<Rightarrow> int \<Rightarrow> string" where
  "substring_from s i = drop (nat i) s"

section \<open>The YAML library and exceptions\<close>

text \<open>
  The YAML packages (\<open>yaml\<close>, \<open>js-yaml\<close>) are dependencies, not code of the plugin: their
  functions are parameters. \<open>yaml_parse\<close> throws on a syntax error; a document is null
  (\<open>None\<close>, an empty block) or a mapping. Blocks whose YAML is a bare scalar or a
  sequence are outside the model.
\<close>

datatype exn = YAMLParseError | TypeError | WriteFailure string

record yaml_lib =
  yaml_parse :: "string \<Rightarrow> exn + obj option"
  yaml_stringify :: "obj \<Rightarrow> string"
  yaml_dump :: "obj \<Rightarrow> string"

text \<open>\<open>try { body } catch (e) { handler }\<close>.\<close>

definition try_catch :: "exn + 'a \<Rightarrow> (exn \<Rightarrow> exn + 'a) \<Rightarrow> exn + 'a" where
  "try_catch body handler = (case body of Inl e \<Rightarrow> handler e | Inr v \<Rightarrow> Inr v)"

section \<open>Front matter in the text (main.ts and part_000)\<close>

text \<open>\<open>replaceFrontMatter\<close> (main.ts 362-377, part_000 1015-1030).\<close>

definition restOfContent :: "string \<Rightarrow> string" where
  "restOfContent content =
     (let yamlStart = indexOf content ''---'' 0;
          yamlEnd = indexOf content ''---'' (yamlStart + 3)
      in if yamlStart \<noteq> - 1 \<and> yamlEnd \<noteq> - 1
         then trimStart (substring_from content (yamlEnd + 3))
         else trimStart content)"

definition replaceFrontMatter :: "yaml_lib \<Rightarrow> string \<Rightarrow> obj \<Rightarrow> string" where
  "replaceFrontMatter lib content newData =
     ''---\<newline>'' @ yaml_dump lib newData @ ''---\<newline>\<newline>'' @ restOfContent content"

section \<open>The host: vault, metadata cache, user\<close>

text \<open>
  What the plugin reads from and writes to Obsidian. Operations run one at a time: an
  \<open>await\<close> is a call that returns. The metadata cache is the host's index; a write
  through \<open>vault.modify\<close> changes the text of the file and leaves the index to the host.
\<close>

record tfile =
  file_path :: string
  file_basename :: string

datatype abstract_file = TFile tfile | TFolder string

record cached_metadata =
  cm_frontmatter :: "obj option"
  cm_tags :: "string list"

datatype event = Confirm string | Modify string string

record host =
  markdownFiles :: "tfile list"
  folders :: "string list"
  fileText :: "string \<Rightarrow> string"
  fileCache :: "string \<Rightarrow> cached_metadata option"
  rejectsWrite :: "string \<Rightarrow> bool"
  confirmAnswer :: "string \<Rightarrow> bool"
  events :: "event list"

definition getAbstractFileByPath :: "host \<Rightarrow> string \<Rightarrow> abstract_file option" where
  "getAbstractFileByPath h p =
     (case find (\<lambda>f. file_path f = p) (markdownFiles h) of
        Some f \<Rightarrow> Some (TFile f)
      | None \<Rightarrow> if p \<in> set (folders h) then Some (TFolder p) else None)"

fun af_path :: "abstract_file \<Rightarrow> string" where
  "af_path (TFile f) = file_path f"
| "af_path (TFolder p) = p"

text \<open>\<open>await this.app.vault.modify(file, text)\<close>: the host may reject the write.\<close>

definition modify :: "host \<Rightarrow> string \<Rightarrow> string \<Rightarrow> exn + host" where
  "modify h p text =
     (if rejectsWrite h p then Inl (WriteFailure p)
      else Inr (h\<lparr>fileText := (fileText h)(p := text), events := events h @ [Modify p text]\<rparr>))"

text \<open>\<open>window.confirm(message)\<close>.\<close>

definition confirm :: "host \<Rightarrow> string \<Rightarrow> bool \<times> host" where
  "confirm h msg = (confirmAnswer h msg, h\<lparr>events := events h @ [Confirm msg]\<rparr>)"

text \<open>\<open>this.app.metadataCache.getFileCache(file)?.frontmatter\<close> and the same \<open>|| {}\<close>.\<close>

definition cachedFrontmatter :: "host \<Rightarrow> string \<Rightarrow> obj option" where
  "cachedFrontmatter h p = (case fileCache h p of None \<Rightarrow> None | Some c \<Rightarrow> cm_frontmatter c)"

definition frontmatterOrEmpty :: "host \<Rightarrow> string \<Rightarrow> obj" where
  "frontmatterOrEmpty h p = (case cachedFrontmatter h p of None \<Rightarrow> [] | Some d \<Rightarrow> d)"

section \<open>Tags (main.ts 379-407, part_000 1032-1060 and 1090-1107)\<close>

definition strip_hash :: "string \<Rightarrow> string" where
  "strip_hash t = (if prefix ''#'' t then drop 1 t else t)"

text \<open>
  \<open>tags.map((tag) => tag.startsWith("#") ? tag.substring(1) : tag)\<close>: an element that is
  not a string has no \<open>startsWith\<close>, the call throws.
\<close>

fun strip_hashes :: "jsval list \<Rightarrow> exn + string list" where
  "strip_hashes [] = Inr []"
| "strip_hashes (JStr s # xs) =
     (case strip_hashes xs of Inl e \<Rightarrow> Inl e | Inr ys \<Rightarrow> Inr (strip_hash s # ys))"
| "strip_hashes (_ # xs) = Inl TypeError"

text \<open>\<open>[...new Set(tags)]\<close>: the first occurrence of each tag, in order.\<close>

definition dedupe :: "string list \<Rightarrow> string list" where
  "dedupe ts = rev (remdups (rev ts))"

definition getAllTags :: "host \<Rightarrow> tfile \<Rightarrow> exn + string list" where
  "getAllTags h file =
     (let tagCache = (case fileCache h (file_path file) of None \<Rightarrow> [] | Some c \<Rightarrow> cm_tags c);
          frontmatterTags =
            (case cachedFrontmatter h (file_path file) of
               None \<Rightarrow> JUndefined | Some d \<Rightarrow> get_prop d ''tags'');
          tags = map JStr tagCache
            @ (if falsy frontmatterTags then []
               else case frontmatterTags of
                      JStr s \<Rightarrow> [JStr s]
                    | JArr xs \<Rightarrow> xs
                    | _ \<Rightarrow> [])
      in case strip_hashes tags of Inl e \<Rightarrow> Inl e | Inr ts \<Rightarrow> Inr (dedupe ts))"

definition getAllTagsFromFrontmatter :: "obj \<Rightarrow> exn + string list" where
  "getAllTagsFromFrontmatter frontmatter =
     (let t = get_prop frontmatter ''tags''
      in if falsy t then Inr []
         else strip_hashes (case t of JStr s \<Rightarrow> [JStr s] | JArr xs \<Rightarrow> xs | _ \<Rightarrow> []))"

section \<open>The plugin of main.ts and of the second file of part_000\<close>

record settings =
  tagBase :: string
  deleteEmptyMetatagProperties :: bool
  templateFolderPath :: string

record plugin =
  plugin_settings :: settings
  fileTagCache :: "string \<Rightarrow> string list option"
  templateCache :: "string \<Rightarrow> obj option"

subsection \<open>applyTemplateMetadata (main.ts 232-263)\<close>

text \<open>
  The loop over \<open>metaTagNames\<close>; \<open>resolve\<close> is how a name finds its template file, the one
  point where main.ts and part_000 differ.
\<close>

fun mergeTemplateData :: "(string \<Rightarrow> string option) \<Rightarrow> host \<Rightarrow> obj \<Rightarrow> string list \<Rightarrow> obj" where
  "mergeTemplateData resolve h mergedTemplateData [] = mergedTemplateData"
| "mergeTemplateData resolve h mergedTemplateData (metaTagName # rest) =
     (case resolve metaTagName of
        None \<Rightarrow> mergeTemplateData resolve h mergedTemplateData rest
      | Some templateFile \<Rightarrow>
          mergeTemplateData resolve h
            (spread2 mergedTemplateData (frontmatterOrEmpty h templateFile)) rest)"

text \<open>main.ts: the template of a name is the file \<open>tagBase/name.md\<close>.\<close>

definition templateFileOf :: "settings \<Rightarrow> host \<Rightarrow> string \<Rightarrow> string option" where
  "templateFileOf s h metaTagName =
     map_option af_path (getAbstractFileByPath h (tagBase s @ ''/'' @ metaTagName @ ''.md''))"

definition mergedData :: "settings \<Rightarrow> host \<Rightarrow> tfile \<Rightarrow> string list \<Rightarrow> obj" where
  "mergedData s h file metaTagNames =
     (let noteData = frontmatterOrEmpty h (file_path file);
          mergedTemplateData = mergeTemplateData (templateFileOf s h) h [] metaTagNames
      in spread2 mergedTemplateData noteData)"

definition applyTemplateMetadata ::
  "yaml_lib \<Rightarrow> settings \<Rightarrow> host \<Rightarrow> tfile \<Rightarrow> string list \<Rightarrow> exn + host" where
  "applyTemplateMetadata lib s h file metaTagNames =
     (let content = fileText h (file_path file);
          newContent = replaceFrontMatter lib content (mergedData s h file metaTagNames)
      in modify h (file_path file) newContent)"

subsection \<open>syncTemplateToNote (main.ts 265-307, part_000 916-958)\<close>

fun addProps :: "obj \<Rightarrow> obj \<Rightarrow> string list \<Rightarrow> obj" where
  "addProps currTemplateData newData [] = newData"
| "addProps currTemplateData newData (prop # rest) =
     addProps currTemplateData
       (if \<not> in_op prop newData then set_prop newData prop (get_prop currTemplateData prop)
        else newData) rest"

fun removeProps :: "obj \<Rightarrow> string list \<Rightarrow> obj" where
  "removeProps newData [] = newData"
| "removeProps newData (prop # rest) =
     removeProps
       (if in_op prop newData \<and> empty_or_nullish (get_prop newData prop)
        then delete_prop newData prop else newData) rest"

definition syncedData :: "obj \<Rightarrow> string list \<Rightarrow> string list \<Rightarrow> obj \<Rightarrow> obj" where
  "syncedData noteData addedProps removedProps currTemplateData =
     removeProps (addProps currTemplateData (spread1 noteData) addedProps) removedProps"

definition syncTemplateToNote ::
  "yaml_lib \<Rightarrow> host \<Rightarrow> tfile \<Rightarrow> string \<Rightarrow> string list \<Rightarrow> string list \<Rightarrow> obj \<Rightarrow> exn + host" where
  "syncTemplateToNote lib h file metaTagName addedProps removedProps currTemplateData =
     (let noteData = frontmatterOrEmpty h (file_path file);
          newData = syncedData noteData addedProps removedProps currTemplateData;
          content = fileText h (file_path file);
          newContent = replaceFrontMatter lib content newData
      in modify h (file_path file) newContent)"

subsection \<open>handleTemplateMetadataChange (main.ts 186-230, part_000 849-893)\<close>

definition propsOf :: "obj \<Rightarrow> string list" where
  "propsOf d = filter (\<lambda>prop. prop \<notin> set [''tags'', ''mt'']) (keys d)"

text \<open>
  The loop over all notes. An exception leaves the loop: the notes written so far stay
  written, the rest are not visited.
\<close>

fun syncBoundNotes ::
  "yaml_lib \<Rightarrow> settings \<Rightarrow> string \<Rightarrow> string list \<Rightarrow> string list \<Rightarrow> obj \<Rightarrow> host \<Rightarrow> tfile list
     \<Rightarrow> host \<times> exn option" where
  "syncBoundNotes lib s metaTagName addedProps removedProps currTemplateData h [] = (h, None)"
| "syncBoundNotes lib s metaTagName addedProps removedProps currTemplateData h (file # rest) =
     (case getAllTags h file of
        Inl e \<Rightarrow> (h, Some e)
      | Inr tags \<Rightarrow>
          if (tagBase s @ ''/'' @ metaTagName) \<in> set tags
          then (case syncTemplateToNote lib h file metaTagName addedProps removedProps currTemplateData of
                  Inl e \<Rightarrow> (h, Some e)
                | Inr h' \<Rightarrow> syncBoundNotes lib s metaTagName addedProps removedProps currTemplateData h' rest)
          else syncBoundNotes lib s metaTagName addedProps removedProps currTemplateData h rest)"

definition handleTemplateMetadataChange ::
  "yaml_lib \<Rightarrow> plugin \<Rightarrow> host \<Rightarrow> tfile \<Rightarrow> plugin \<times> host \<times> exn option" where
  "handleTemplateMetadataChange lib p h templateFile =
     (let metaTagName = file_basename templateFile;
          prevTemplateData =
            (case templateCache p (file_path templateFile) of None \<Rightarrow> [] | Some d \<Rightarrow> d);
          currTemplateData = frontmatterOrEmpty h (file_path templateFile);
          p' = p\<lparr>templateCache := (templateCache p)(file_path templateFile \<mapsto> currTemplateData)\<rparr>;
          prevProps = propsOf prevTemplateData;
          currProps = propsOf currTemplateData;
          addedProps = filter (\<lambda>prop. prop \<notin> set prevProps) currProps;
          removedProps = filter (\<lambda>prop. prop \<notin> set currProps) prevProps;
          (h', e) = syncBoundNotes lib (plugin_settings p) metaTagName addedProps removedProps
                      currTemplateData h (markdownFiles h)
      in (p', h', e))"

subsection \<open>removeEmptyTemplateProperties (main.ts 334-350)\<close>

text \<open>The body starts with \<open>return;\<close>: nothing after it runs.\<close>

definition removeEmptyTemplateProperties ::
  "yaml_lib \<Rightarrow> settings \<Rightarrow> host \<Rightarrow> tfile \<Rightarrow> string \<Rightarrow> exn + host" where
  "removeEmptyTemplateProperties lib s h file metaTagName = Inr h"

section \<open>Front matter by regular expression (part_000 395-434, 1220-1231)\<close>

text \<open>
  \<open>/^---\n([\s\S]*?)\n---/\<close>: the text starts with the opening line; the group is the
  shortest text after it that is followed by a line feed and three dashes. The result is
  the group and where the match ends.
\<close>

definition fmOpen :: string where
  "fmOpen = ''---\<newline>''"

definition fmClose :: string where
  "fmClose = ''\<newline>---''"

definition frontmatterMatch :: "string \<Rightarrow> (string \<times> nat) option" where
  "frontmatterMatch content =
     (if prefix fmOpen content
      then (case first_occ fmClose (drop 4 content) of
              None \<Rightarrow> None
            | Some i \<Rightarrow> Some (take i (drop 4 content), 4 + i + 4))
      else None)"

definition extractFrontmatter :: "yaml_lib \<Rightarrow> string \<Rightarrow> exn + obj option" where
  "extractFrontmatter lib content =
     (case frontmatterMatch content of
        Some (block, _) \<Rightarrow> try_catch (yaml_parse lib block) (\<lambda>e. Inr (Some []))
      | None \<Rightarrow> Inr (Some []))"

text \<open>\<open>content.split(/^---\n[\s\S]*?\n---/).pop()\<close>: what follows the match, or all of it.\<close>

definition afterFrontmatter :: "string \<Rightarrow> string" where
  "afterFrontmatter content =
     (case frontmatterMatch content of None \<Rightarrow> content | Some (_, e) \<Rightarrow> drop e content)"

definition existingBody :: "string \<Rightarrow> string" where
  "existingBody content = trim (afterFrontmatter content)"

definition updateContentWithFrontmatter :: "yaml_lib \<Rightarrow> string \<Rightarrow> obj \<Rightarrow> string" where
  "updateContentWithFrontmatter lib content frontmatter =
     (let frontmatterString = ''---\<newline>'' @ yaml_stringify lib frontmatter @ ''---\<newline>''
      in frontmatterString @ ''\<newline>'' @ existingBody content)"

section \<open>The plugin of the first file of part_000 (lines 1-587)\<close>

text \<open>
  \<open>previousTemplateState[name] || {}\<close> reads a missing and a null entry alike: both are
  \<open>None\<close>. The flag \<open>suppressTemplateChange\<close> is written and never read; it is left out.
\<close>

record plugin_A =
  settings_A :: settings
  suppressChange :: bool
  previousTemplateState :: "string \<Rightarrow> obj option"

subsection \<open>mergeFrontmatter (408-420)\<close>

definition mergeFrontmatter :: "string \<Rightarrow> obj option \<Rightarrow> obj \<Rightarrow> obj" where
  "mergeFrontmatter tb existing template =
     (let merged = spread2 template (case existing of None \<Rightarrow> [] | Some e \<Rightarrow> e)
      in case get_prop merged ''tags'' of
           JArr ts \<Rightarrow> set_prop merged ''tags'' (JArr (filter (\<lambda>tag. tag \<noteq> JStr tb) ts))
         | _ \<Rightarrow> merged)"

text \<open>
  \<open>JSON.stringify(existingFrontmatter) === JSON.stringify(mergedFrontmatter)\<close>: on values
  that YAML delivers the JSON text determines the value, key order included; null and an
  object never agree.
\<close>

definition sameJSON :: "obj option \<Rightarrow> obj \<Rightarrow> bool" where
  "sameJSON existing merged = (existing = Some merged)"

subsection \<open>applyMetadataTemplate (352-393)\<close>

definition applyMetadataTemplate ::
  "yaml_lib \<Rightarrow> plugin_A \<Rightarrow> host \<Rightarrow> tfile \<Rightarrow> string \<Rightarrow> plugin_A \<times> host \<times> exn option" where
  "applyMetadataTemplate lib p h file templateName =
     (if suppressChange p then (p, h, None)
      else case getAbstractFileByPath h (templateName @ ''.md'') of
        Some (TFile templateFile) \<Rightarrow>
          (case extractFrontmatter lib (fileText h (file_path templateFile)) of
             Inl e \<Rightarrow> (p, h, Some e)
           | Inr None \<Rightarrow> (p, h, None)
           | Inr (Some templateFrontmatter) \<Rightarrow>
               (let existingContent = fileText h (file_path file)
                in case extractFrontmatter lib existingContent of
                     Inl e \<Rightarrow> (p, h, Some e)
                   | Inr existingFrontmatter \<Rightarrow>
                       (let mergedFrontmatter =
                              mergeFrontmatter (tagBase (settings_A p)) existingFrontmatter
                                templateFrontmatter
                        in if sameJSON existingFrontmatter mergedFrontmatter then (p, h, None)
                           else case modify h (file_path file)
                                       (updateContentWithFrontmatter lib existingContent
                                          mergedFrontmatter) of
                                  Inl e \<Rightarrow> (p\<lparr>suppressChange := False\<rparr>, h, Some e)
                                | Inr h' \<Rightarrow> (p\<lparr>suppressChange := False\<rparr>, h', None))))
      | _ \<Rightarrow> (p, h, None))"

subsection \<open>isEmpty (539-541)\<close>

text \<open>
  The emptiness test of the first file, used by its \<open>removeEmptyTemplateProperties\<close>:
  \<open>value === undefined || value === null || value === ""\<close>.
\<close>

definition isEmpty :: "jsval \<Rightarrow> bool" where
  "isEmpty v = (v = JUndefined \<or> v = JNull \<or> v = JStr [])"

subsection \<open>syncNotesWithTemplate (447-537)\<close>

definition getDeletedProperties :: "obj \<Rightarrow> obj \<Rightarrow> string list" where
  "getDeletedProperties oldTemplate newTemplate =
     filter (\<lambda>key. \<not> hasOwn newTemplate key) (keys oldTemplate)"

fun join :: "string \<Rightarrow> string list \<Rightarrow> string" where
  "join sep [] = []"
| "join sep [x] = x"
| "join sep (x # y # ys) = x @ sep @ join sep (y # ys)"

definition confirmMessage :: "string \<Rightarrow> string list \<Rightarrow> string" where
  "confirmMessage templateName deletedProperties =
     ''The following properties will be removed from all notes with the MetaTag ''
       @ [CHR 0x22] @ templateName @ [CHR 0x22] @ '':\<newline>''
       @ join '', '' deletedProperties @ ''\<newline>\<newline>Do you want to proceed?''"

text \<open>
  \<open>metadata?.frontmatter?.tags?.includes(tag)\<close>: element of a list, part of a string;
  any other value that is not null has no \<open>includes\<close> and the call throws.
\<close>

definition tagsInclude :: "host \<Rightarrow> string \<Rightarrow> string \<Rightarrow> exn + bool" where
  "tagsInclude h p tag =
     (case cachedFrontmatter h p of
        None \<Rightarrow> Inr False
      | Some d \<Rightarrow>
          (case get_prop d ''tags'' of
             JUndefined \<Rightarrow> Inr False
           | JNull \<Rightarrow> Inr False
           | JArr xs \<Rightarrow> Inr (JStr tag \<in> set xs)
           | JStr s \<Rightarrow> Inr (includes_str s tag)
           | _ \<Rightarrow> Inl TypeError))"

text \<open>
  \<open>deletedProperties.forEach(...)\<close> on the parsed front matter of a note:
  \<open>existingFrontmatter.hasOwnProperty\<close> throws on null and on a mapping with a key of that
  name.
\<close>

fun deleteEmptyProps :: "obj option \<Rightarrow> string list \<Rightarrow> exn + obj option" where
  "deleteEmptyProps existingFrontmatter [] = Inr existingFrontmatter"
| "deleteEmptyProps existingFrontmatter (prop # rest) =
     (case existingFrontmatter of
        None \<Rightarrow> Inl TypeError
      | Some m \<Rightarrow>
          if hasOwn m ''hasOwnProperty'' then Inl TypeError
          else deleteEmptyProps
                 (Some (if hasOwn m prop \<and> falsy (get_prop m prop) then delete_prop m prop else m))
                 rest)"

fun syncNotes ::
  "yaml_lib \<Rightarrow> string \<Rightarrow> string list \<Rightarrow> obj \<Rightarrow> plugin_A \<Rightarrow> host \<Rightarrow> tfile list
     \<Rightarrow> plugin_A \<times> host \<times> exn option" where
  "syncNotes lib templateName deletedProperties newTemplateFrontmatter p h [] = (p, h, None)"
| "syncNotes lib templateName deletedProperties newTemplateFrontmatter p h (file # rest) =
     (case tagsInclude h (file_path file) (tagBase (settings_A p) @ ''/'' @ templateName) of
        Inl e \<Rightarrow> (p, h, Some e)
      | Inr bound \<Rightarrow>
          if \<not> bound
          then syncNotes lib templateName deletedProperties newTemplateFrontmatter p h rest
          else
            (let existingContent = fileText h (file_path file)
             in case extractFrontmatter lib existingContent of
                  Inl e \<Rightarrow> (p, h, Some e)
                | Inr parsed \<Rightarrow>
                    (case deleteEmptyProps parsed deletedProperties of
                       Inl e \<Rightarrow> (p, h, Some e)
                     | Inr existingFrontmatter \<Rightarrow>
                         (let mergedFrontmatter =
                                mergeFrontmatter (tagBase (settings_A p)) existingFrontmatter
                                  newTemplateFrontmatter
                          in if \<not> sameJSON existingFrontmatter mergedFrontmatter
                             then (case modify h (file_path file)
                                          (updateContentWithFrontmatter lib existingContent
                                             mergedFrontmatter) of
                                     Inl e \<Rightarrow> (p\<lparr>suppressChange := True\<rparr>, h, Some e)
                                   | Inr h' \<Rightarrow>
                                       syncNotes lib templateName deletedProperties
                                         newTemplateFrontmatter (p\<lparr>suppressChange := False\<rparr>) h' rest)
                             else syncNotes lib templateName deletedProperties
                                    newTemplateFrontmatter p h rest))))"

definition propagate ::
  "yaml_lib \<Rightarrow> string \<Rightarrow> string list \<Rightarrow> obj \<Rightarrow> plugin_A \<Rightarrow> host
     \<Rightarrow> plugin_A \<times> host \<times> exn option" where
  "propagate lib templateName deletedProperties newTemplateFrontmatter p h =
     syncNotes lib templateName deletedProperties newTemplateFrontmatter
       (p\<lparr>previousTemplateState :=
            (previousTemplateState p)(templateName \<mapsto> newTemplateFrontmatter)\<rparr>)
       h (markdownFiles h)"

definition revertedContent :: "yaml_lib \<Rightarrow> obj \<Rightarrow> string \<Rightarrow> string" where
  "revertedContent lib previousFrontmatter newTemplateContent =
     ''---\<newline>'' @ yaml_stringify lib previousFrontmatter @ ''---\<newline>''
       @ afterFrontmatter newTemplateContent"

definition syncNotesWithTemplate ::
  "yaml_lib \<Rightarrow> plugin_A \<Rightarrow> host \<Rightarrow> string \<Rightarrow> plugin_A \<times> host \<times> exn option" where
  "syncNotesWithTemplate lib p h templateName =
     (case getAbstractFileByPath h (templateName @ ''.md'') of
        Some (TFile templateFile) \<Rightarrow>
          (let previousFrontmatter =
                 (case previousTemplateState p templateName of None \<Rightarrow> [] | Some d \<Rightarrow> d);
               newTemplateContent = fileText h (file_path templateFile)
           in case extractFrontmatter lib newTemplateContent of
                Inl e \<Rightarrow> (p, h, Some e)
              | Inr None \<Rightarrow> (p, h, None)
              | Inr (Some newTemplateFrontmatter) \<Rightarrow>
                  (let deletedProperties =
                         getDeletedProperties previousFrontmatter newTemplateFrontmatter
                   in if deletedProperties \<noteq> []
                      then (let (proceed, h1) =
                                  confirm h (confirmMessage templateName deletedProperties)
                            in if \<not> proceed
                               then (case modify h1 (file_path templateFile)
                                            (revertedContent lib previousFrontmatter
                                               newTemplateContent) of
                                       Inl e \<Rightarrow> (p, h1, Some e)
                                     | Inr h2 \<Rightarrow> (p, h2, None))
                               else propagate lib templateName deletedProperties
                                      newTemplateFrontmatter p h1)
                      else propagate lib templateName deletedProperties
                             newTemplateFrontmatter p h))
      | _ \<Rightarrow> (p, h, None))"

section \<open>The second file of part_000 (lines 588-1296)\<close>

subsection \<open>getTemplateFileByName (783-813)\<close>

fun findTemplate :: "settings \<Rightarrow> host \<Rightarrow> string \<Rightarrow> tfile list \<Rightarrow> exn + tfile option" where
  "findTemplate s h templateName [] = Inr None"
| "findTemplate s h templateName (file # rest) =
     (if file_basename file = templateName
      then (case cachedFrontmatter h (file_path file) of
              None \<Rightarrow> findTemplate s h templateName rest
            | Some frontmatter \<Rightarrow>
                (case getAllTagsFromFrontmatter frontmatter of
                   Inl e \<Rightarrow> Inl e
                 | Inr tags \<Rightarrow>
                     if tagBase s \<in> set tags then Inr (Some file)
                     else findTemplate s h templateName rest))
      else findTemplate s h templateName rest)"

definition getTemplateFileByName :: "settings \<Rightarrow> host \<Rightarrow> string \<Rightarrow> exn + tfile option" where
  "getTemplateFileByName s h templateName =
     (let folder = trim (templateFolderPath s)
      in if folder \<noteq> []
         then (case getAbstractFileByPath h (folder @ ''/'' @ templateName @ ''.md'') of
                 Some (TFile f) \<Rightarrow> Inr (Some f)
               | _ \<Rightarrow> Inr None)
         else findTemplate s h templateName (markdownFiles h))"

subsection \<open>applyTemplateMetadata (895-914)\<close>

fun mergeTemplateData_B :: "settings \<Rightarrow> host \<Rightarrow> obj \<Rightarrow> string list \<Rightarrow> exn + obj" where
  "mergeTemplateData_B s h mergedTemplateData [] = Inr mergedTemplateData"
| "mergeTemplateData_B s h mergedTemplateData (metaTagName # rest) =
     (case getTemplateFileByName s h metaTagName of
        Inl e \<Rightarrow> Inl e
      | Inr None \<Rightarrow> mergeTemplateData_B s h mergedTemplateData rest
      | Inr (Some templateFile) \<Rightarrow>
          mergeTemplateData_B s h
            (spread2 mergedTemplateData (frontmatterOrEmpty h (file_path templateFile))) rest)"

definition mergedData_B :: "settings \<Rightarrow> host \<Rightarrow> tfile \<Rightarrow> string list \<Rightarrow> exn + obj" where
  "mergedData_B s h file metaTagNames =
     (let noteData = frontmatterOrEmpty h (file_path file)
      in case mergeTemplateData_B s h [] metaTagNames of
           Inl e \<Rightarrow> Inl e
         | Inr mergedTemplateData \<Rightarrow> Inr (spread2 mergedTemplateData noteData))"

definition applyTemplateMetadata_B ::
  "yaml_lib \<Rightarrow> settings \<Rightarrow> host \<Rightarrow> tfile \<Rightarrow> string list \<Rightarrow> exn + host" where
  "applyTemplateMetadata_B lib s h file metaTagNames =
     (case mergedData_B s h file metaTagNames of
        Inl e \<Rightarrow> Inl e
      | Inr merged \<Rightarrow>
          (let content = fileText h (file_path file);
               newContent = replaceFrontMatter lib content merged
           in modify h (file_path file) newContent))"

text \<open>The template file of a name, when the lookup finds one.\<close>

definition resolve_B :: "settings \<Rightarrow> host \<Rightarrow> string \<Rightarrow> string option" where
  "resolve_B s h n =
     (case getTemplateFileByName s h n of Inr (Some f) \<Rightarrow> Some (file_path f) | _ \<Rightarrow> None)"

subsection \<open>removeEmptyTemplateProperties (983-1013)\<close>

text \<open>
  The loop \<open>for (const key in newData)\<close>; \<open>templateData.hasOwnProperty\<close> throws on null and
  on a mapping with a key of that name. \<open>noteValue === templateValue\<close> under
  \<open>typeof templateValue === 'boolean'\<close>: both are the same boolean.
\<close>

fun pruneProps :: "obj option \<Rightarrow> obj \<Rightarrow> string list \<Rightarrow> exn + obj" where
  "pruneProps templateData newData [] = Inr newData"
| "pruneProps templateData newData (key # rest) =
     (case templateData of
        None \<Rightarrow> Inl TypeError
      | Some t \<Rightarrow>
          if hasOwn t ''hasOwnProperty'' then Inl TypeError
          else pruneProps templateData
                 (if hasOwn t key
                  then (let noteValue = get_prop newData key;
                            templateValue = get_prop t key
                        in if empty_or_null noteValue then delete_prop newData key
                           else if is_boolean templateValue
                           then (if noteValue = templateValue then delete_prop newData key
                                 else newData)
                           else newData)
                  else newData)
                 rest)"

definition removeEmptyTemplateProperties_B ::
  "yaml_lib \<Rightarrow> settings \<Rightarrow> host \<Rightarrow> tfile \<Rightarrow> string \<Rightarrow> exn + host" where
  "removeEmptyTemplateProperties_B lib s h file metaTagName =
     (let noteData = frontmatterOrEmpty h (file_path file);
          content = fileText h (file_path file)
      in case getTemplateFileByName s h metaTagName of
           Inl e \<Rightarrow> Inl e
         | Inr None \<Rightarrow> Inr h
         | Inr (Some templateFile) \<Rightarrow>
             (case extractFrontmatter lib (fileText h (file_path templateFile)) of
                Inl e \<Rightarrow> Inl e
              | Inr templateData \<Rightarrow>
                  (case pruneProps templateData (spread1 noteData) (keys (spread1 noteData)) of
                     Inl e \<Rightarrow> Inl e
                   | Inr newData \<Rightarrow>
                       modify h (file_path file) (replaceFrontMatter lib content newData))))"

subsection \<open>handleMetaTagRemoved (834-847)\<close>

text \<open>
  \<open>tag.replace(prefix, "")\<close> on a tag that starts with the prefix removes that prefix.
  Refreshing the view is not modelled.
\<close>

fun handleMetaTagRemoved_B ::
  "yaml_lib \<Rightarrow> settings \<Rightarrow> host \<Rightarrow> tfile \<Rightarrow> string list \<Rightarrow> exn + host" where
  "handleMetaTagRemoved_B lib s h file [] = Inr h"
| "handleMetaTagRemoved_B lib s h file (tag # rest) =
     (if prefix (tagBase s @ ''/'') tag \<and> deleteEmptyMetatagProperties s
      then (case removeEmptyTemplateProperties_B lib s h file
                   (drop (length (tagBase s @ ''/'')) tag) of
              Inl e \<Rightarrow> Inl e
            | Inr h' \<Rightarrow> handleMetaTagRemoved_B lib s h' file rest)
      else handleMetaTagRemoved_B lib s h file rest)"

section \<open>Notions used in the statements\<close>

text \<open>A tag list without the bare base tag; any other value as it is.\<close>

definition withoutTag :: "string \<Rightarrow> jsval \<Rightarrow> jsval" where
  "withoutTag tb v = (case v of JArr ts \<Rightarrow> JArr (filter (\<lambda>tag. tag \<noteq> JStr tb) ts) | _ \<Rightarrow> v)"

text \<open>The last step of \<open>mergeFrontmatter\<close>: the merged tags without the bare base tag.\<close>

definition stripBase :: "string \<Rightarrow> obj \<Rightarrow> obj" where
  "stripBase tb merged =
     (case get_prop merged ''tags'' of
        JArr ts \<Rightarrow> set_prop merged ''tags'' (JArr (filter (\<lambda>tag. tag \<noteq> JStr tb) ts))
      | _ \<Rightarrow> merged)"

text \<open>
  What pruning removes from the note data \<open>d\<close> for the template data \<open>t\<close>: a property
  of the template that is empty in the note, or a boolean in the note equal to a boolean
  of the template.
\<close>

definition prunable :: "obj \<Rightarrow> obj \<Rightarrow> string \<Rightarrow> bool" where
  "prunable t d k =
     (hasOwn t k \<and>
      (empty_or_null (get_prop d k) \<or> (is_boolean (get_prop t k) \<and> get_prop d k = get_prop t k)))"

text \<open>
  The host after its indexer has read the front matter \<open>d\<close> of the file \<open>p\<close>.
\<close>

definition reindex :: "host \<Rightarrow> string \<Rightarrow> obj \<Rightarrow> host" where
  "reindex h p d =
     h\<lparr>fileCache := (fileCache h)
          (p := Some \<lparr>cm_frontmatter = Some d,
                      cm_tags = (case fileCache h p of None \<Rightarrow> [] | Some c \<Rightarrow> cm_tags c)\<rparr>)\<rparr>"

section \<open>A sample YAML library and sample vaults\<close>

text \<open>
  What the YAML libraries do on flat mappings whose values are plain strings, booleans
  and null, one \<open>key: value\<close> line per property: enough to run the plugin on the examples
  below. \<open>js-yaml\<close> writes the empty string as two single quotes, \<open>yaml\<close> as two double
  quotes, both write the empty mapping as \<open>{}\<close>. A value that opens a flow sequence with
  \<open>[\<close> and does not close it is a syntax error, as is a line that is not \<open>key: value\<close>;
  a text without any line is the null document.
\<close>

fun dump_scalar :: "char \<Rightarrow> jsval \<Rightarrow> string" where
  "dump_scalar q (JStr s) = (if s = [] then [q, q] else s)"
| "dump_scalar q (JBool b) = (if b then ''true'' else ''false'')"
| "dump_scalar q v = ''null''"

definition sample_dump :: "char \<Rightarrow> obj \<Rightarrow> string" where
  "sample_dump q m =
     (if m = [] then ''{}\<newline>''
      else concat (map (\<lambda>(k, v). k @ '': '' @ dump_scalar q v @ ''\<newline>'') m))"

fun split_lines :: "string \<Rightarrow> string \<Rightarrow> string list" where
  "split_lines cur [] = [cur]"
| "split_lines cur (c # cs) =
     (if c = CHR 0x0A then cur # split_lines [] cs else split_lines (cur @ [c]) cs)"

definition parse_scalar :: "string \<Rightarrow> exn + jsval" where
  "parse_scalar v =
     (if v = [] \<or> v = ''null'' then Inr JNull
      else if v = ''true'' then Inr (JBool True)
      else if v = ''false'' then Inr (JBool False)
      else if v = [CHR 0x22, CHR 0x22] \<or> v = [CHR 0x27, CHR 0x27] then Inr (JStr [])
      else if prefix ''['' v \<and> \<not> suffix '']'' v then Inl YAMLParseError
      else Inr (JStr v))"

definition parse_line :: "string \<Rightarrow> exn + string \<times> jsval" where
  "parse_line l =
     (case first_occ '': '' l of
        Some i \<Rightarrow>
          (case parse_scalar (drop (i + 2) l) of
             Inl e \<Rightarrow> Inl e
           | Inr v \<Rightarrow> Inr (take i l, v))
      | None \<Rightarrow> if suffix '':'' l then Inr (butlast l, JNull) else Inl YAMLParseError)"

fun parse_lines :: "obj \<Rightarrow> string list \<Rightarrow> exn + obj" where
  "parse_lines acc [] = Inr acc"
| "parse_lines acc (l # ls) =
     (if l = [] then parse_lines acc ls
      else case parse_line l of
             Inl e \<Rightarrow> Inl e
           | Inr (k, v) \<Rightarrow>
               if hasOwn acc k then Inl YAMLParseError else parse_lines (acc @ [(k, v)]) ls)"

definition sample_parse :: "string \<Rightarrow> exn + obj option" where
  "sample_parse s =
     (if s = ''{}'' then Inr (Some [])
      else if filter (\<lambda>l. l \<noteq> []) (split_lines [] s) = [] then Inr None
      else case parse_lines [] (split_lines [] s) of Inl e \<Rightarrow> Inl e | Inr m \<Rightarrow> Inr (Some m))"

definition sample_lib :: yaml_lib where
  "sample_lib =
     \<lparr>yaml_parse = sample_parse,
      yaml_stringify = sample_dump (CHR 0x22),
      yaml_dump = sample_dump (CHR 0x27)\<rparr>"

definition mkfile :: "string \<Rightarrow> string \<Rightarrow> tfile" where
  "mkfile p b = \<lparr>file_path = p, file_basename = b\<rparr>"

definition indexed :: "obj \<Rightarrow> cached_metadata option" where
  "indexed d = Some \<lparr>cm_frontmatter = Some d, cm_tags = []\<rparr>"

definition mt_settings :: settings where
  "mt_settings = \<lparr>tagBase = ''mt'', deleteEmptyMetatagProperties = True, templateFolderPath = ''mt''\<rparr>"

text \<open>
  Two templates with the same key: \<open>mt/A.md\<close> has \<open>k: first\<close>, \<open>mt/B.md\<close> has
  \<open>k: second\<close>; the note \<open>note.md\<close> is tagged with both.
\<close>

definition two_templates :: host where
  "two_templates =
     \<lparr>markdownFiles = [mkfile ''mt/A.md'' ''A'', mkfile ''mt/B.md'' ''B'', mkfile ''note.md'' ''note''],
      folders = [''mt''],
      fileText = (\<lambda>p. []),
      fileCache = (\<lambda>p.
        if p = ''mt/A.md'' then indexed [(''k'', JStr ''first'')]
        else if p = ''mt/B.md'' then indexed [(''k'', JStr ''second'')]
        else if p = ''note.md'' then indexed [(''tags'', JArr [JStr ''mt/A'', JStr ''mt/B''])]
        else None),
      rejectsWrite = (\<lambda>p. False),
      confirmAnswer = (\<lambda>m. True),
      events = []\<rparr>"

text \<open>
  A book note after its tag \<open>mt/Book\<close> was removed: the template \<open>mt/Book.md\<close> has
  \<open>done: true\<close> and \<open>author: unknown\<close>, the note has \<open>done: true\<close> and \<open>author: Jane\<close>.
\<close>

definition book_template_text :: string where
  "book_template_text = ''---\<newline>done: true\<newline>author: unknown\<newline>---\<newline>''"

definition book_note_text :: string where
  "book_note_text = ''---\<newline>done: true\<newline>author: Jane\<newline>---\<newline>\<newline>body''"

definition book_vault :: host where
  "book_vault =
     \<lparr>markdownFiles = [mkfile ''mt/Book.md'' ''Book'', mkfile ''note.md'' ''note''],
      folders = [''mt''],
      fileText = (\<lambda>p.
        if p = ''mt/Book.md'' then book_template_text
        else if p = ''note.md'' then book_note_text else []),
      fileCache = (\<lambda>p.
        if p = ''mt/Book.md'' then indexed [(''done'', JBool True), (''author'', JStr ''unknown'')]
        else if p = ''note.md'' then indexed [(''done'', JBool True), (''author'', JStr ''Jane'')]
        else None),
      rejectsWrite = (\<lambda>p. False),
      confirmAnswer = (\<lambda>m. True),
      events = []\<rparr>"

text \<open>
  A template that has just dropped \<open>rating\<close>: its last synchronised properties were
  \<open>rating: n/a\<close> and \<open>author: unknown\<close>, now it has \<open>author: unknown\<close> only. The bound note
  has \<open>tags: mt/Book\<close>, an empty \<open>rating\<close> and \<open>title: Emma\<close>. In main.ts the template is
  \<open>mt/Book.md\<close>, in the first file of part_000 it is \<open>Book.md\<close>.
\<close>

definition bound_note_text :: string where
  "bound_note_text =
     ''---\<newline>tags: mt/Book\<newline>rating: \<newline>title: Emma\<newline>---\<newline>\<newline>body''"

definition bound_note_data :: obj where
  "bound_note_data = [(''tags'', JStr ''mt/Book''), (''rating'', JNull), (''title'', JStr ''Emma'')]"

definition new_template_text :: string where
  "new_template_text = ''---\<newline>author: unknown\<newline>---\<newline>Notes on books''"

definition old_template_data :: obj where
  "old_template_data = [(''rating'', JStr ''n/a''), (''author'', JStr ''unknown'')]"

definition sync_vault :: host where
  "sync_vault =
     \<lparr>markdownFiles = [mkfile ''mt/Book.md'' ''Book'', mkfile ''note.md'' ''note''],
      folders = [''mt''],
      fileText = (\<lambda>p.
        if p = ''mt/Book.md'' then new_template_text
        else if p = ''note.md'' then bound_note_text else []),
      fileCache = (\<lambda>p.
        if p = ''mt/Book.md'' then indexed [(''author'', JStr ''unknown'')]
        else if p = ''note.md'' then indexed bound_note_data
        else None),
      rejectsWrite = (\<lambda>p. False),
      confirmAnswer = (\<lambda>m. False),
      events = []\<rparr>"

definition sync_plugin :: plugin where
  "sync_plugin =
     \<lparr>plugin_settings = mt_settings,
      fileTagCache = (\<lambda>p. None),
      templateCache = (\<lambda>p. if p = ''mt/Book.md'' then Some old_template_data else None)\<rparr>"

definition vault_A :: host where
  "vault_A =
     \<lparr>markdownFiles = [mkfile ''Book.md'' ''Book'', mkfile ''note.md'' ''note''],
      folders = [],
      fileText = (\<lambda>p.
        if p = ''Book.md'' then new_template_text
        else if p = ''note.md'' then bound_note_text else []),
      fileCache = (\<lambda>p.
        if p = ''Book.md'' then indexed [(''author'', JStr ''unknown'')]
        else if p = ''note.md'' then indexed bound_note_data
        else None),
      rejectsWrite = (\<lambda>p. False),
      confirmAnswer = (\<lambda>m. False),
      events = []\<rparr>"

definition plugin_A0 :: plugin_A where
  "plugin_A0 =
     \<lparr>settings_A = mt_settings,
      suppressChange = False,
      previousTemplateState = (\<lambda>n. if n = ''Book'' then Some old_template_data else None)\<rparr>"

text \<open>
  A template that has just dropped the flag \<open>done\<close>, in the first file of part_000: its
  stored state has \<open>done: false\<close> and \<open>author: unknown\<close>, its text \<open>author: unknown\<close>
  only. The bound note has \<open>tags: mt/Book\<close>, \<open>done: false\<close> and \<open>title: Emma\<close>; the user
  confirms the deletion.
\<close>

definition flag_note_text :: string where
  "flag_note_text =
     ''---\<newline>tags: mt/Book\<newline>done: false\<newline>title: Emma\<newline>---\<newline>\<newline>body''"

definition flag_note_data :: obj where
  "flag_note_data = [(''tags'', JStr ''mt/Book''), (''done'', JBool False), (''title'', JStr ''Emma'')]"

definition flag_vault_A :: host where
  "flag_vault_A =
     \<lparr>markdownFiles = [mkfile ''Book.md'' ''Book'', mkfile ''note.md'' ''note''],
      folders = [],
      fileText = (\<lambda>p.
        if p = ''Book.md'' then new_template_text
        else if p = ''note.md'' then flag_note_text else []),
      fileCache = (\<lambda>p.
        if p = ''Book.md'' then indexed [(''author'', JStr ''unknown'')]
        else if p = ''note.md'' then indexed flag_note_data
        else None),
      rejectsWrite = (\<lambda>p. False),
      confirmAnswer = (\<lambda>m. True),
      events = []\<rparr>"

definition flag_plugin_A :: plugin_A where
  "flag_plugin_A =
     \<lparr>settings_A = mt_settings,
      suppressChange = False,
      previousTemplateState = (\<lambda>n.
        if n = ''Book'' then Some [(''done'', JBool False), (''author'', JStr ''unknown'')]
        else None)\<rparr>"

definition confirming_vault_A :: host where
  "confirming_vault_A = vault_A\<lparr>confirmAnswer := (\<lambda>m. True)\<rparr>"

definition readonly_vault :: host where
  "readonly_vault = sync_vault\<lparr>rejectsWrite := (\<lambda>p. p = ''note.md'')\<rparr>"

text \<open>A note whose block has an unclosed flow sequence, and one with dashes in a value.\<close>

definition broken_block_text :: string where
  "broken_block_text = ''---\<newline>a: [\<newline>---\<newline>body''"

definition marker_in_value_text :: string where
  "marker_in_value_text = ''---\<newline>title: a --- b\<newline>---\<newline>\<newline>body''"

section \<open>Facts about objects\<close>

lemma map_of_set_prop: "map_of (set_prop m k v) = (map_of m)(k \<mapsto> v)"
  by (simp add: set_prop_def update_conv')

lemma wf_set_prop: "wf_obj m \<Longrightarrow> wf_obj (set_prop m k v)"
  by (simp add: wf_obj_def keys_def set_prop_def distinct_update)

lemma map_of_delete_prop: "map_of (delete_prop m k) = (map_of m)(k := None)"
  by (simp add: delete_prop_def delete_conv')

lemma hasOwn_map_of: "hasOwn m k \<longleftrightarrow> map_of m k \<noteq> None"
  by (simp add: hasOwn_def keys_def map_of_eq_None_iff)

lemma get_prop_Some: "map_of m k = Some v \<Longrightarrow> get_prop m k = v"
  by (simp add: get_prop_def)

lemma wf_Nil: "wf_obj []"
  by (simp add: wf_obj_def keys_def)

lemma obj_assign_Nil: "obj_assign t [] = t"
  by (simp add: obj_assign_def)

lemma obj_assign_Cons: "obj_assign t ((k, v) # s) = obj_assign (set_prop t k v) s"
  by (simp add: obj_assign_def)

lemma obj_assign_append: "obj_assign t (xs @ ys) = obj_assign (obj_assign t xs) ys"
  by (simp add: obj_assign_def)

lemma wf_obj_assign: "wf_obj t \<Longrightarrow> wf_obj (obj_assign t s)"
  by (induction s arbitrary: t) (auto simp: obj_assign_Nil obj_assign_Cons wf_set_prop)

lemma map_of_obj_assign_notin:
  "k \<notin> set (keys s) \<Longrightarrow> map_of (obj_assign t s) k = map_of t k"
  by (induction s arbitrary: t) (auto simp: obj_assign_Nil obj_assign_Cons map_of_set_prop keys_def)

lemma map_of_obj_assign_in:
  "wf_obj s \<Longrightarrow> map_of s k = Some v \<Longrightarrow> map_of (obj_assign t s) k = Some v"
proof (induction s arbitrary: t)
  case Nil
  then show ?case by simp
next
  case (Cons a s)
  obtain k' v' where a: "a = (k', v')" by (cases a)
  show ?case
  proof (cases "k' = k")
    case True
    with Cons.prems a have "k \<notin> set (keys s)" "v' = v" by (auto simp: wf_obj_def keys_def)
    then show ?thesis using a True
      by (simp add: obj_assign_Cons map_of_obj_assign_notin map_of_set_prop)
  next
    case False
    with Cons.prems a have "wf_obj s" "map_of s k = Some v" by (auto simp: wf_obj_def keys_def)
    then show ?thesis using a Cons.IH by (simp add: obj_assign_Cons)
  qed
qed

text \<open>Assigning properties under new names appends them.\<close>

lemma obj_assign_disjoint:
  "wf_obj ys \<Longrightarrow> set (keys xs) \<inter> set (keys ys) = {} \<Longrightarrow> obj_assign xs ys = xs @ ys"
proof (induction ys arbitrary: xs)
  case Nil
  then show ?case by (simp add: obj_assign_Nil)
next
  case (Cons a ys)
  obtain k v where a: "a = (k, v)" by (cases a)
  from Cons.prems a have k: "k \<notin> set (keys xs)" "k \<notin> set (keys ys)" "wf_obj ys"
    by (auto simp: wf_obj_def keys_def)
  have upd: "set_prop xs k v = xs @ [(k, v)]"
    using k(1) by (induction xs) (auto simp: set_prop_def keys_def)
  have "set (keys (xs @ [(k, v)])) \<inter> set (keys ys) = {}"
    using Cons.prems(2) k a by (auto simp: keys_def)
  with Cons.IH[OF k(3), of "xs @ [(k, v)]"] show ?case
    using a upd by (simp add: obj_assign_Cons)
qed

lemma spread1_wf: "wf_obj a \<Longrightarrow> spread1 a = a"
  using obj_assign_disjoint[of a "[]"] by (simp add: spread1_def keys_def)

lemma wf_spread1: "wf_obj (spread1 a)"
  by (simp add: spread1_def wf_obj_assign wf_Nil)

lemma wf_spread2: "wf_obj (spread2 a b)"
  by (simp add: spread2_def wf_obj_assign wf_Nil)

lemma map_of_spread2_right:
  "wf_obj b \<Longrightarrow> map_of b k = Some v \<Longrightarrow> map_of (spread2 a b) k = Some v"
  by (simp add: spread2_def map_of_obj_assign_in)

lemma map_of_spread2_left:
  "\<not> hasOwn b k \<Longrightarrow> map_of (spread2 a b) k = map_of (spread1 a) k"
  by (simp add: spread2_def spread1_def hasOwn_def map_of_obj_assign_notin)

section \<open>Propagating a template change into a note\<close>

lemma addProps_keeps: "map_of d p = Some v \<Longrightarrow> map_of (addProps c d ps) p = Some v"
proof (induction ps arbitrary: d)
  case Nil
  then show ?case by simp
next
  case (Cons q ps)
  have "map_of (if \<not> in_op q d then set_prop d q (get_prop c q) else d) p = Some v"
    using Cons.prems by (auto simp: map_of_set_prop in_op_def hasOwn_map_of)
  then show ?case using Cons.IH by simp
qed

lemma removeProps_keeps:
  "map_of d p = Some v \<Longrightarrow> \<not> empty_or_nullish v \<Longrightarrow> map_of (removeProps d ps) p = Some v"
proof (induction ps arbitrary: d)
  case Nil
  then show ?case by simp
next
  case (Cons q ps)
  have "map_of (if in_op q d \<and> empty_or_nullish (get_prop d q) then delete_prop d q else d) p
          = Some v"
    using Cons.prems by (auto simp: map_of_delete_prop get_prop_Some)
  then show ?case using Cons.IH Cons.prems(2) by simp
qed

lemma removeProps_deleted:
  "hasOwn d p \<Longrightarrow> \<not> hasOwn (removeProps d ps) p
     \<Longrightarrow> p \<in> set ps \<and> empty_or_nullish (get_prop d p)"
proof (induction ps arbitrary: d)
  case Nil
  then show ?case by simp
next
  case (Cons q ps)
  let ?d' = "if in_op q d \<and> empty_or_nullish (get_prop d q) then delete_prop d q else d"
  show ?case
  proof (cases "hasOwn ?d' p")
    case True
    from Cons.IH[OF True] Cons.prems(2) have "p \<in> set ps \<and> empty_or_nullish (get_prop ?d' p)"
      by simp
    moreover have "get_prop ?d' p = get_prop d p"
      using True by (auto simp: get_prop_def map_of_delete_prop hasOwn_map_of split: if_splits)
    ultimately show ?thesis by simp
  next
    case False
    with Cons.prems(1) show ?thesis
      by (auto simp: hasOwn_map_of map_of_delete_prop split: if_splits)
  qed
qed

text \<open>
  What \<open>syncTemplateToNote\<close> computes: a property with a value that is not empty is kept
  with that value; a property that is gone was removed from the template and empty in
  the note.
\<close>

lemma syncedData_nondestructive:
  assumes "wf_obj noteData" and "hasOwn noteData p"
  shows "(\<not> empty_or_nullish (get_prop noteData p) \<longrightarrow>
            map_of (syncedData noteData addedProps removedProps currTemplateData) p
              = map_of noteData p)
       \<and> (\<not> hasOwn (syncedData noteData addedProps removedProps currTemplateData) p \<longrightarrow>
            p \<in> set removedProps \<and> empty_or_nullish (get_prop noteData p))"
proof -
  from assms(2) obtain v where v: "map_of noteData p = Some v"
    by (auto simp: hasOwn_map_of)
  let ?a = "addProps currTemplateData (spread1 noteData) addedProps"
  have a: "map_of ?a p = Some v"
    using v assms(1) by (simp add: addProps_keeps spread1_wf)
  have 1: "\<not> empty_or_nullish v \<Longrightarrow> map_of (removeProps ?a removedProps) p = Some v"
    using a by (rule removeProps_keeps)
  have 2: "\<not> hasOwn (removeProps ?a removedProps) p
             \<Longrightarrow> p \<in> set removedProps \<and> empty_or_nullish (get_prop ?a p)"
    using a by (intro removeProps_deleted) (simp_all add: hasOwn_map_of)
  show ?thesis
    using 1 2 v a by (auto simp: syncedData_def get_prop_Some)
qed

text \<open>A write changes the text of one file and nothing that the plugin reads of the index.\<close>

lemma modify_effect:
  "modify h q c = Inr h' \<Longrightarrow>
     fileCache h' = fileCache h \<and> fileText h' = (fileText h)(q := c)"
  by (auto simp: modify_def split: if_splits)

lemma getAllTags_cache: "fileCache h' = fileCache h \<Longrightarrow> getAllTags h' f = getAllTags h f"
  by (simp add: getAllTags_def cachedFrontmatter_def)

lemma frontmatterOrEmpty_cache:
  "fileCache h' = fileCache h \<Longrightarrow> frontmatterOrEmpty h' q = frontmatterOrEmpty h q"
  by (simp add: frontmatterOrEmpty_def cachedFrontmatter_def)

lemma syncBoundNotes_others:
  assumes "syncBoundNotes lib s n a r c h fs = (h', e)"
  shows "fileCache h' = fileCache h
         \<and> (q \<notin> file_path ` set fs \<longrightarrow> fileText h' q = fileText h q)"
  using assms
proof (induction fs arbitrary: h)
  case Nil
  then show ?case by simp
next
  case (Cons g fs)
  from Cons.prems consider
    (stop) "h' = h"
    | (skip) "syncBoundNotes lib s n a r c h fs = (h', e)"
    | (wrote) newText h1 where "modify h (file_path g) newText = Inr h1"
        "syncBoundNotes lib s n a r c h1 fs = (h', e)"
    by (auto simp: syncTemplateToNote_def Let_def split: sum.splits if_splits)
  then show ?case
  proof cases
    case stop
    then show ?thesis by simp
  next
    case skip
    from Cons.IH[OF skip] show ?thesis by simp
  next
    case wrote
    from Cons.IH[OF wrote(2)] modify_effect[OF wrote(1)] show ?thesis by auto
  qed
qed

text \<open>
  When the loop over the notes ends without an exception, a bound note holds the
  serialisation of its synchronised data.
\<close>

lemma syncBoundNotes_text:
  assumes "syncBoundNotes lib s n a r c h fs = (h', None)"
    and "f \<in> set fs" and "distinct (map file_path fs)"
    and "getAllTags h f = Inr tags" and "(tagBase s @ ''/'' @ n) \<in> set tags"
  shows "fileText h' (file_path f)
           = replaceFrontMatter lib (fileText h (file_path f))
               (syncedData (frontmatterOrEmpty h (file_path f)) a r c)"
  using assms
proof (induction fs arbitrary: h)
  case Nil
  then show ?case by simp
next
  case (Cons g fs)
  show ?case
  proof (cases "g = f")
    case True
    let ?c = "replaceFrontMatter lib (fileText h (file_path f))
                (syncedData (frontmatterOrEmpty h (file_path f)) a r c)"
    from Cons.prems(1,4,5) True obtain h1 where
      h1: "modify h (file_path f) ?c = Inr h1" "syncBoundNotes lib s n a r c h1 fs = (h', None)"
      by (auto simp: syncTemplateToNote_def Let_def split: sum.splits)
    from Cons.prems(3) True have "file_path f \<notin> file_path ` set fs" by auto
    with syncBoundNotes_others[OF h1(2), of "file_path f"]
    have "fileText h' (file_path f) = fileText h1 (file_path f)" by simp
    then show ?thesis using modify_effect[OF h1(1)] by simp
  next
    case False
    with Cons.prems(2) have fin: "f \<in> set fs" by simp
    from Cons.prems(3) fin have ne: "file_path g \<noteq> file_path f" by auto
    from Cons.prems(1) consider
      (skip) "syncBoundNotes lib s n a r c h fs = (h', None)"
      | (wrote) newText h1 where "modify h (file_path g) newText = Inr h1"
          "syncBoundNotes lib s n a r c h1 fs = (h', None)"
      by (auto simp: syncTemplateToNote_def Let_def split: sum.splits if_splits)
    then show ?thesis
    proof cases
      case skip
      from Cons.IH[OF skip fin _ Cons.prems(4,5)] Cons.prems(3) show ?thesis by simp
    next
      case wrote
      from modify_effect[OF wrote(1)] have
        c: "fileCache h1 = fileCache h" and t: "fileText h1 (file_path f) = fileText h (file_path f)"
        using ne by auto
      have "getAllTags h1 f = Inr tags" using Cons.prems(4) getAllTags_cache[OF c] by simp
      from Cons.IH[OF wrote(2) fin _ this Cons.prems(5)] Cons.prems(3)
      show ?thesis using t frontmatterOrEmpty_cache[OF c] by simp
    qed
  qed
qed

text \<open>
  Propagation in main.ts and in the second file of part_000 is not destructive. A run of
  \<open>handleTemplateMetadataChange\<close> that ends without an exception leaves in every bound
  note \<open>f\<close> the serialisation of a property map \<open>newData\<close>, computed by \<open>syncTemplateToNote\<close> from the note's indexed front
  matter \<open>noteData\<close>. For a property \<open>q\<close> that the note has: if its value is not empty
  (not \<open>""\<close>, null or undefined), \<open>newData\<close> has \<open>q\<close> with that value, whatever the template
  added or removed; and if \<open>q\<close> is gone from \<open>newData\<close>, then \<open>q\<close> is one of the properties
  removed from the template between the stored and the current revision, and the
  note's value for it was empty.
\<close>

theorem propagation_is_nondestructive:
  assumes "r = handleTemplateMetadataChange lib p h templateFile"
    and "snd (snd r) = None"
    and "distinct (map file_path (markdownFiles h))"
    and "f \<in> set (markdownFiles h)"
    and "getAllTags h f = Inr tags"
    and "(tagBase (plugin_settings p) @ ''/'' @ file_basename templateFile) \<in> set tags"
    and "noteData = frontmatterOrEmpty h (file_path f)"
    and "wf_obj noteData" and "hasOwn noteData q"
    and "prevProps = propsOf (case templateCache p (file_path templateFile) of
                                None \<Rightarrow> [] | Some d \<Rightarrow> d)"
    and "currProps = propsOf (frontmatterOrEmpty h (file_path templateFile))"
    and "removedProps = filter (\<lambda>prop. prop \<notin> set currProps) prevProps"
  shows "\<exists>newData.
           fileText (fst (snd r)) (file_path f)
             = replaceFrontMatter lib (fileText h (file_path f)) newData
           \<and> (\<not> empty_or_nullish (get_prop noteData q) \<longrightarrow> map_of newData q = map_of noteData q)
           \<and> (\<not> hasOwn newData q \<longrightarrow>
                q \<in> set removedProps \<and> empty_or_nullish (get_prop noteData q))"
proof -
  let ?added = "filter (\<lambda>prop. prop \<notin> set prevProps) currProps"
  let ?curr = "frontmatterOrEmpty h (file_path templateFile)"
  let ?newData = "syncedData noteData ?added removedProps ?curr"
  have run: "syncBoundNotes lib (plugin_settings p) (file_basename templateFile) ?added
               removedProps ?curr h (markdownFiles h) = (fst (snd r), None)"
    using assms(2) unfolding assms(1) handleTemplateMetadataChange_def assms(10,11,12)
    by (simp add: Let_def split_def prod_eq_iff)
  from syncBoundNotes_text[OF run assms(4,3,5,6)]
  have "fileText (fst (snd r)) (file_path f)
          = replaceFrontMatter lib (fileText h (file_path f)) ?newData"
    by (simp add: assms(7))
  with syncedData_nondestructive[OF assms(8,9), of ?added removedProps ?curr]
  show ?thesis by blast
qed

text \<open>
  Scenario 3 of the specification in \<open>sync_vault\<close>: the template dropped \<open>rating\<close>; the
  bound note keeps \<open>title: Emma\<close> and loses its empty \<open>rating\<close>.
\<close>

theorem propagation_is_nondestructive_witness:
  "snd (snd (handleTemplateMetadataChange sample_lib sync_plugin sync_vault
               (mkfile ''mt/Book.md'' ''Book''))) = None
   \<and> distinct (map file_path (markdownFiles sync_vault))
   \<and> mkfile ''note.md'' ''note'' \<in> set (markdownFiles sync_vault)
   \<and> getAllTags sync_vault (mkfile ''note.md'' ''note'') = Inr [''mt/Book'']
   \<and> wf_obj bound_note_data
   \<and> hasOwn bound_note_data ''title'' \<and> \<not> empty_or_nullish (get_prop bound_note_data ''title'')
   \<and> hasOwn bound_note_data ''rating'' \<and> empty_or_nullish (get_prop bound_note_data ''rating'')
   \<and> fileText (fst (snd (handleTemplateMetadataChange sample_lib sync_plugin sync_vault
                            (mkfile ''mt/Book.md'' ''Book'')))) ''note.md''
       = replaceFrontMatter sample_lib bound_note_text
           [(''tags'', JStr ''mt/Book''), (''title'', JStr ''Emma'')]"
proof -
  have e: "snd (snd (handleTemplateMetadataChange sample_lib sync_plugin sync_vault
               (mkfile ''mt/Book.md'' ''Book''))) = None"
    "distinct (map file_path (markdownFiles sync_vault))"
    "mkfile ''note.md'' ''note'' \<in> set (markdownFiles sync_vault)"
    "getAllTags sync_vault (mkfile ''note.md'' ''note'') = Inr [''mt/Book'']"
    "(tagBase (plugin_settings sync_plugin) @ ''/'' @ file_basename (mkfile ''mt/Book.md'' ''Book''))
       \<in> set [''mt/Book'']"
    "bound_note_data = frontmatterOrEmpty sync_vault (file_path (mkfile ''note.md'' ''note''))"
    "wf_obj bound_note_data"
    "hasOwn bound_note_data ''title''"
    by code_simp+
  have v: "\<not> empty_or_nullish (get_prop bound_note_data ''title'')"
    "hasOwn bound_note_data ''rating''" "empty_or_nullish (get_prop bound_note_data ''rating'')"
    "fileText (fst (snd (handleTemplateMetadataChange sample_lib sync_plugin sync_vault
                            (mkfile ''mt/Book.md'' ''Book'')))) ''note.md''
       = replaceFrontMatter sample_lib bound_note_text
           [(''tags'', JStr ''mt/Book''), (''title'', JStr ''Emma'')]"
    by code_simp+
  from propagation_is_nondestructive[OF refl e(1-8) refl refl refl]
  show ?thesis using e v by simp
qed

text \<open>
  C2 fails on the first file of part_000. Its propagation, \<open>syncNotesWithTemplate\<close>,
  says \<open>Remove only properties with no content\<close> and tests \<open>!existingFrontmatter[prop]\<close>:
  the values \<open>false\<close> and \<open>0\<close> pass that test, although they are not empty for \<open>isEmpty\<close>
  of the same file nor for \<open>syncTemplateToNote\<close> of the other two. In \<open>flag_vault_A\<close> the
  template dropped \<open>done\<close> and the bound note holds \<open>done: false\<close>: the run ends without
  an exception and the note is written back without \<open>done\<close>, where
  \<open>syncTemplateToNote\<close> keeps \<open>done: false\<close> for the same note and the same removal.
\<close>

theorem syncNotesWithTemplate_deletes_false:
  "extractFrontmatter sample_lib (fileText flag_vault_A ''note.md'') = Inr (Some flag_note_data)
   \<and> tagsInclude flag_vault_A ''note.md'' ''mt/Book'' = Inr True
   \<and> get_prop flag_note_data ''done'' = JBool False
   \<and> \<not> isEmpty (JBool False) \<and> \<not> empty_or_nullish (JBool False) \<and> falsy (JBool False)
   \<and> getDeletedProperties [(''done'', JBool False), (''author'', JStr ''unknown'')]
         [(''author'', JStr ''unknown'')] = [''done'']
   \<and> deleteEmptyProps (Some flag_note_data) [''done'']
       = Inr (Some [(''tags'', JStr ''mt/Book''), (''title'', JStr ''Emma'')])
   \<and> deleteEmptyProps (Some [(''count'', JNum 0)]) [''count''] = Inr (Some [])
   \<and> \<not> isEmpty (JNum 0)
   \<and> snd (snd (syncNotesWithTemplate sample_lib flag_plugin_A flag_vault_A ''Book'')) = None
   \<and> events (fst (snd (syncNotesWithTemplate sample_lib flag_plugin_A flag_vault_A ''Book'')))
       = [Confirm (confirmMessage ''Book'' [''done'']),
          Modify ''note.md''
            ''---\<newline>author: unknown\<newline>tags: mt/Book\<newline>title: Emma\<newline>---\<newline>\<newline>body'']
   \<and> map_of (syncedData flag_note_data [] [''done''] [(''author'', JStr ''unknown'')]) ''done''
       = Some (JBool False)"
  by code_simp

section \<open>Merging several templates\<close>

lemma mergeTemplateData_append:
  "mergeTemplateData resolve h acc (xs @ ys)
     = mergeTemplateData resolve h (mergeTemplateData resolve h acc xs) ys"
  by (induction xs arbitrary: acc) (auto split: option.splits)

lemma mergeTemplateData_untouched:
  assumes "\<forall>m \<in> set ns. \<forall>tf. resolve m = Some tf \<longrightarrow> \<not> hasOwn (frontmatterOrEmpty h tf) k"
    and "wf_obj acc"
  shows "map_of (mergeTemplateData resolve h acc ns) k = map_of acc k"
  using assms
proof (induction ns arbitrary: acc)
  case Nil
  then show ?case by simp
next
  case (Cons n ns)
  show ?case
  proof (cases "resolve n")
    case None
    then show ?thesis using Cons by simp
  next
    case (Some tf)
    with Cons.prems have "\<not> hasOwn (frontmatterOrEmpty h tf) k" by simp
    then have "map_of (spread2 acc (frontmatterOrEmpty h tf)) k = map_of acc k"
      using Cons.prems(2) by (simp add: map_of_spread2_left spread1_wf)
    then show ?thesis using Some Cons by (simp add: wf_spread2)
  qed
qed

lemma mergeTemplateData_B_eq:
  "mergeTemplateData_B s h acc ns = Inr m \<Longrightarrow> m = mergeTemplateData (resolve_B s h) h acc ns"
  by (induction ns arbitrary: acc) (auto simp: resolve_B_def split: sum.splits option.splits)

lemma mergeTemplateData_last:
  assumes "resolve n = Some tf"
    and "wf_obj (frontmatterOrEmpty h tf)"
    and "map_of (frontmatterOrEmpty h tf) k = Some w"
    and "\<forall>m \<in> set later. \<forall>tf'. resolve m = Some tf' \<longrightarrow> \<not> hasOwn (frontmatterOrEmpty h tf') k"
  shows "map_of (mergeTemplateData resolve h acc (earlier @ n # later)) k = Some w"
proof -
  let ?acc' = "spread2 (mergeTemplateData resolve h acc earlier) (frontmatterOrEmpty h tf)"
  have "map_of ?acc' k = Some w"
    using assms(2,3) by (rule map_of_spread2_right)
  moreover have "map_of (mergeTemplateData resolve h ?acc' later) k = map_of ?acc' k"
    using assms(4) by (rule mergeTemplateData_untouched) (rule wf_spread2)
  ultimately show ?thesis
    using assms(1) by (simp add: mergeTemplateData_append)
qed

text \<open>
  C3, as the code has it. The loop of \<open>applyTemplateMetadata\<close> spreads each resolved
  template over what was merged so far, so a later template overrides an earlier one:
  for a key \<open>k\<close> that the template of name \<open>n\<close> defines as \<open>w\<close>, and that no template
  referenced after \<open>n\<close> defines, the merged template map has \<open>k = w\<close>, whatever the
  templates referenced before \<open>n\<close> say. The first conjunct is main.ts (template files under
  \<open>tagBase/\<close>), the second the second file of part_000 (\<open>getTemplateFileByName\<close>).
\<close>

theorem later_template_overrides:
  assumes "wf_obj t" and "map_of t k = Some w"
  shows "(templateFileOf s h n = Some tf \<and> frontmatterOrEmpty h tf = t
          \<and> (\<forall>m \<in> set later. \<forall>tf'. templateFileOf s h m = Some tf'
                \<longrightarrow> \<not> hasOwn (frontmatterOrEmpty h tf') k)
          \<longrightarrow> map_of (mergeTemplateData (templateFileOf s h) h [] (earlier @ n # later)) k = Some w)
       \<and> (getTemplateFileByName s h n = Inr (Some f) \<and> frontmatterOrEmpty h (file_path f) = t
          \<and> (\<forall>m \<in> set later. \<forall>f'. getTemplateFileByName s h m = Inr (Some f')
                \<longrightarrow> \<not> hasOwn (frontmatterOrEmpty h (file_path f')) k)
          \<and> mergeTemplateData_B s h [] (earlier @ n # later) = Inr merged
          \<longrightarrow> map_of merged k = Some w)"
proof (intro conjI impI)
  assume a: "templateFileOf s h n = Some tf \<and> frontmatterOrEmpty h tf = t
          \<and> (\<forall>m \<in> set later. \<forall>tf'. templateFileOf s h m = Some tf'
                \<longrightarrow> \<not> hasOwn (frontmatterOrEmpty h tf') k)"
  show "map_of (mergeTemplateData (templateFileOf s h) h [] (earlier @ n # later)) k = Some w"
    using a assms by (intro mergeTemplateData_last[where tf = tf]) auto
next
  assume b: "getTemplateFileByName s h n = Inr (Some f) \<and> frontmatterOrEmpty h (file_path f) = t
          \<and> (\<forall>m \<in> set later. \<forall>f'. getTemplateFileByName s h m = Inr (Some f')
                \<longrightarrow> \<not> hasOwn (frontmatterOrEmpty h (file_path f')) k)
          \<and> mergeTemplateData_B s h [] (earlier @ n # later) = Inr merged"
  then have m: "merged = mergeTemplateData (resolve_B s h) h [] (earlier @ n # later)"
    by (simp add: mergeTemplateData_B_eq)
  have "map_of (mergeTemplateData (resolve_B s h) h [] (earlier @ n # later)) k = Some w"
    using b assms
    by (intro mergeTemplateData_last[where tf = "file_path f"])
       (auto simp: resolve_B_def split: sum.splits option.splits)
  then show "map_of merged k = Some w" using m by simp
qed

text \<open>
  In the vault \<open>two_templates\<close> the note references \<open>A\<close> then \<open>B\<close>; the key \<open>k\<close> of the
  merged template map is that of \<open>B\<close>, in both files.
\<close>

theorem later_template_overrides_witness:
  "wf_obj [(''k'', JStr ''second'')]
   \<and> map_of [(''k'', JStr ''second'')] ''k'' = Some (JStr ''second'')
   \<and> templateFileOf mt_settings two_templates ''B'' = Some ''mt/B.md''
   \<and> frontmatterOrEmpty two_templates ''mt/B.md'' = [(''k'', JStr ''second'')]
   \<and> map_of (mergeTemplateData (templateFileOf mt_settings two_templates) two_templates []
               ([''A''] @ ''B'' # [])) ''k'' = Some (JStr ''second'')
   \<and> getTemplateFileByName mt_settings two_templates ''B'' = Inr (Some (mkfile ''mt/B.md'' ''B''))
   \<and> mergeTemplateData_B mt_settings two_templates [] ([''A''] @ ''B'' # [])
        = Inr [(''k'', JStr ''second'')]"
proof -
  have e: "wf_obj [(''k'', JStr ''second'')]"
    "map_of [(''k'', JStr ''second'')] ''k'' = Some (JStr ''second'')"
    "templateFileOf mt_settings two_templates ''B'' = Some ''mt/B.md''"
    "frontmatterOrEmpty two_templates ''mt/B.md'' = [(''k'', JStr ''second'')]"
    "getTemplateFileByName mt_settings two_templates ''B'' = Inr (Some (mkfile ''mt/B.md'' ''B''))"
    "frontmatterOrEmpty two_templates (file_path (mkfile ''mt/B.md'' ''B''))
       = [(''k'', JStr ''second'')]"
    "mergeTemplateData_B mt_settings two_templates [] ([''A''] @ ''B'' # [])
       = Inr [(''k'', JStr ''second'')]"
    by code_simp+
  from later_template_overrides[OF e(1,2), where s = mt_settings and h = two_templates
         and n = "''B''" and tf = "''mt/B.md''" and later = "[]" and earlier = "[''A'']"
         and f = "mkfile ''mt/B.md'' ''B''" and merged = "[(''k'', JStr ''second'')]"]
  show ?thesis using e by simp
qed

text \<open>
  C3 as the specification states it fails: the first-referenced template \<open>A\<close> has
  \<open>k: first\<close>, the later \<open>B\<close> has \<open>k: second\<close>, and the merged template map of
  \<open>applyTemplateMetadata\<close> for the references \<open>[A, B]\<close> has \<open>k: second\<close>.
\<close>

theorem first_template_wins_counterexample:
  "map_of (frontmatterOrEmpty two_templates ''mt/A.md'') ''k'' = Some (JStr ''first'')
   \<and> map_of (frontmatterOrEmpty two_templates ''mt/B.md'') ''k'' = Some (JStr ''second'')
   \<and> map_of (mergeTemplateData (templateFileOf mt_settings two_templates) two_templates []
               [''A'', ''B'']) ''k'' \<noteq> Some (JStr ''first'')
   \<and> mergeTemplateData (templateFileOf mt_settings two_templates) two_templates []
               [''A'', ''B''] = [(''k'', JStr ''second'')]"
  by code_simp

section \<open>Searching a string\<close>

lemma first_occ_SomeI:
  "prefix pat (drop i s) \<Longrightarrow> i \<le> length s \<Longrightarrow> (\<forall>j<i. \<not> prefix pat (drop j s))
     \<Longrightarrow> first_occ pat s = Some i"
proof (induction s arbitrary: i)
  case Nil
  then show ?case by simp
next
  case (Cons c cs)
  show ?case
  proof (cases i)
    case 0
    with Cons.prems show ?thesis by simp
  next
    case (Suc i')
    with Cons.prems have "\<not> prefix pat (c # cs)" by (metis drop0 zero_less_Suc)
    moreover have "first_occ pat cs = Some i'"
    proof (rule Cons.IH)
      show "prefix pat (drop i' cs)" using Cons.prems(1) Suc by simp
      show "i' \<le> length cs" using Cons.prems(2) Suc by simp
      show "\<forall>j<i'. \<not> prefix pat (drop j cs)"
      proof (intro allI impI)
        fix j assume "j < i'"
        then have "Suc j < i" using Suc by simp
        with Cons.prems(3) have "\<not> prefix pat (drop (Suc j) (c # cs))" by blast
        then show "\<not> prefix pat (drop j cs)" by simp
      qed
    qed
    ultimately show ?thesis using Suc by simp
  qed
qed

lemma first_occ_NoneD:
  "first_occ pat s = None \<Longrightarrow> j \<le> length s \<Longrightarrow> \<not> prefix pat (drop j s)"
proof (induction s arbitrary: j)
  case Nil
  then show ?case by (auto split: if_splits)
next
  case (Cons c cs)
  then show ?case by (cases j) (auto split: if_splits)
qed

lemma drop_length_append: "n = length xs \<Longrightarrow> drop n (xs @ ys) = ys"
  by simp

text \<open>No three dashes start inside \<open>a\<close>, when \<open>a\<close> has none and does not end in a dash.\<close>

lemma no_marker_before:
  assumes "\<not> includes_str a ''---''" and "a = [] \<or> last a \<noteq> CHR ''-''" and "j < length a"
  shows "\<not> prefix ''---'' (drop j (a @ ''---'' @ r))"
proof
  assume p: "prefix ''---'' (drop j (a @ ''---'' @ r))"
  from assms(1) have none: "first_occ ''---'' a = None" by (simp add: includes_str_def)
  define d where "d = drop j a"
  have d: "d \<noteq> []" "last d = last a" "a \<noteq> []" using assms(3) by (auto simp: d_def)
  have nd: "\<not> prefix ''---'' d"
    using first_occ_NoneD[OF none, of j] assms(3) by (simp add: d_def)
  from p have p': "prefix ''---'' (d @ ''---'' @ r)" using assms(3) by (simp add: d_def)
  from d(1) obtain x xs where dx: "d = x # xs" by (cases d) auto
  show False
  proof (cases xs)
    case Nil
    with dx p' d assms(2) show False by auto
  next
    case (Cons y ys)
    show False
    proof (cases ys)
      case Nil
      with Cons dx p' d assms(2) show False by auto
    next
      case (Cons z zs)
      with \<open>xs = y # ys\<close> dx p' nd show False by auto
    qed
  qed
qed

lemma first_marker:
  assumes "\<not> includes_str a ''---''" and "a = [] \<or> last a \<noteq> CHR ''-''"
  shows "first_occ ''---'' (a @ ''---'' @ r) = Some (length a)"
proof (rule first_occ_SomeI)
  show "prefix ''---'' (drop (length a) (a @ ''---'' @ r))" by simp
  show "length a \<le> length (a @ ''---'' @ r)" by simp
  show "\<forall>j<length a. \<not> prefix ''---'' (drop j (a @ ''---'' @ r))"
    using no_marker_before[OF assms] by blast
qed

section \<open>What replaceFrontMatter keeps of the text\<close>

lemma restOfContent_two_markers:
  assumes "\<not> includes_str a ''---''" and "a = [] \<or> last a \<noteq> CHR ''-''"
    and "\<not> includes_str b ''---''" and "b = [] \<or> last b \<noteq> CHR ''-''"
  shows "restOfContent (a @ ''---'' @ b @ ''---'' @ c) = trimStart c"
proof -
  let ?s = "a @ ''---'' @ b @ ''---'' @ c"
  have 1: "indexOf ?s ''---'' 0 = int (length a)"
    using first_marker[OF assms(1,2), of "b @ ''---'' @ c"] by (simp add: indexOf_def)
  have "drop (length a + 3) ?s = b @ ''---'' @ c" by simp
  then have 2: "indexOf ?s ''---'' (int (length a) + 3) = int (length a + 3 + length b)"
    using first_marker[OF assms(3,4), of c]
    by (simp add: indexOf_def nat_add_distrib)
  have "drop (length a + 3 + length b + 3) ((a @ ''---'' @ b @ ''---'') @ c) = c"
    by (rule drop_length_append) simp
  then have 3: "substring_from ?s (int (length a + 3 + length b) + 3) = c"
    by (simp add: substring_from_def nat_add_distrib)
  show ?thesis
    unfolding restOfContent_def Let_def 1 2 3 by simp
qed

text \<open>
  C10. \<open>replaceFrontMatter\<close> takes the first \<open>---\<close> anywhere in the text as the start of
  the block and the next \<open>---\<close> after it as its end. For a text \<open>a --- b --- c\<close>, where
  the two markers are the first two occurrences that do not overlap (no \<open>---\<close> starts
  inside \<open>a\<close> or inside \<open>b\<close>), the result is the new block, one blank line, and \<open>c\<close>
  without its leading white space: \<open>a\<close>, \<open>b\<close> and both markers are gone, whether or not
  \<open>a\<close> is empty, that is whether or not the text had a leading block.
\<close>

theorem replaceFrontMatter_discards_to_second_marker:
  assumes "\<not> includes_str a ''---''" and "a = [] \<or> last a \<noteq> CHR ''-''"
    and "\<not> includes_str b ''---''" and "b = [] \<or> last b \<noteq> CHR ''-''"
  shows "replaceFrontMatter lib (a @ ''---'' @ b @ ''---'' @ c) newData
           = ''---\<newline>'' @ yaml_dump lib newData @ ''---\<newline>\<newline>'' @ trimStart c"
  using restOfContent_two_markers[OF assms] by (simp add: replaceFrontMatter_def)

text \<open>
  A note without front matter and with two horizontal rules: the introduction and the
  first section are lost on the first write.
\<close>

theorem replaceFrontMatter_discards_to_second_marker_witness:
  "\<not> includes_str ''Intro\<newline>'' ''---'' \<and> last ''Intro\<newline>'' \<noteq> CHR ''-''
   \<and> \<not> includes_str ''\<newline>First\<newline>'' ''---'' \<and> last ''\<newline>First\<newline>'' \<noteq> CHR ''-''
   \<and> replaceFrontMatter sample_lib
        (''Intro\<newline>'' @ ''---'' @ ''\<newline>First\<newline>'' @ ''---'' @ ''\<newline>Second'')
        [(''author'', JStr ''Jane'')]
      = ''---\<newline>author: Jane\<newline>---\<newline>\<newline>Second''"
proof -
  have h: "\<not> includes_str ''Intro\<newline>'' ''---''" "last ''Intro\<newline>'' \<noteq> CHR ''-''"
    "\<not> includes_str ''\<newline>First\<newline>'' ''---''" "last ''\<newline>First\<newline>'' \<noteq> CHR ''-''"
    by code_simp+
  have d: "''---\<newline>'' @ yaml_dump sample_lib [(''author'', JStr ''Jane'')] @ ''---\<newline>\<newline>''
             @ trimStart ''\<newline>Second''
           = ''---\<newline>author: Jane\<newline>---\<newline>\<newline>Second''"
    by code_simp
  show ?thesis
    using replaceFrontMatter_discards_to_second_marker
            [of "''Intro\<newline>''" "''\<newline>First\<newline>''" sample_lib "''\<newline>Second''"
               "[(''author'', JStr ''Jane'')]"]
          h d
    by simp
qed

text \<open>
  Overlapping occurrences do not count: in a rule of four dashes the search for the
  second marker starts after the first three, finds nothing, and the text is kept.
\<close>

lemma replaceFrontMatter_four_dashes:
  "replaceFrontMatter sample_lib ''----\<newline>body'' [] = ''---\<newline>{}\<newline>---\<newline>\<newline>----\<newline>body''"
  by code_simp

section \<open>Precedence of the note's own values\<close>

lemma mergeFrontmatter_lookup:
  assumes "wf_obj ex" and "map_of ex k = Some v"
  shows "map_of (mergeFrontmatter tb (Some ex) t) k
           = Some (if k = ''tags'' then withoutTag tb v else v)"
proof -
  let ?m = "spread2 t ex"
  have m: "map_of ?m k = Some v" using assms by (rule map_of_spread2_right)
  show ?thesis
  proof (cases "k = ''tags''")
    case True
    then have "get_prop ?m ''tags'' = v" using m by (simp add: get_prop_Some)
    then show ?thesis using True m
      by (cases v) (simp_all add: mergeFrontmatter_def withoutTag_def map_of_set_prop)
  next
    case False
    then show ?thesis using m
      by (cases "get_prop ?m ''tags''")
         (simp_all add: mergeFrontmatter_def map_of_set_prop)
  qed
qed

lemma mergedData_lookup:
  assumes "wf_obj (frontmatterOrEmpty h (file_path file))"
    and "map_of (frontmatterOrEmpty h (file_path file)) k = Some v"
  shows "map_of (mergedData s h file names) k = Some v"
  using assms by (simp add: mergedData_def map_of_spread2_right)

lemma mergedData_B_lookup:
  assumes "wf_obj (frontmatterOrEmpty h (file_path file))"
    and "map_of (frontmatterOrEmpty h (file_path file)) k = Some v"
    and "mergedData_B s h file names = Inr m"
  shows "map_of m k = Some v"
  using assms by (auto simp: mergedData_B_def map_of_spread2_right split: sum.splits)

text \<open>
  C1, as the code has it. A note whose front matter has \<open>k = v\<close> keeps \<open>k = v\<close> in the map
  that \<open>applyTemplateMetadata\<close> merges and writes (main.ts, and the second file of
  part_000 when its template lookup does not throw), whatever the templates say. In
  \<open>mergeFrontmatter\<close> (first file of part_000) the note's value wins over the template's
  too, but the merged \<open>tags\<close> list is the note's list without the bare base tag.
\<close>

theorem note_value_takes_precedence:
  assumes "wf_obj noteData" and "map_of noteData k = Some v"
  shows "(frontmatterOrEmpty h (file_path file) = noteData \<longrightarrow>
            map_of (mergedData s h file names) k = Some v
            \<and> (\<forall>m. mergedData_B s h file names = Inr m \<longrightarrow> map_of m k = Some v))
       \<and> map_of (mergeFrontmatter tb (Some noteData) template) k
           = Some (if k = ''tags'' then withoutTag tb v else v)"
  using assms mergedData_lookup mergedData_B_lookup mergeFrontmatter_lookup by blast

text \<open>
  Scenario 2 of the specification: the note has \<open>author: Jane\<close>, the template
  \<open>author: unknown\<close>; the merged map has \<open>author: Jane\<close>.
\<close>

theorem note_value_takes_precedence_witness:
  "wf_obj [(''done'', JBool True), (''author'', JStr ''Jane'')]
   \<and> frontmatterOrEmpty book_vault (file_path (mkfile ''note.md'' ''note''))
       = [(''done'', JBool True), (''author'', JStr ''Jane'')]
   \<and> map_of (mergedData mt_settings book_vault (mkfile ''note.md'' ''note'') [''Book''])
       ''author'' = Some (JStr ''Jane'')
   \<and> mergedData_B mt_settings book_vault (mkfile ''note.md'' ''note'') [''Book'']
       = Inr [(''done'', JBool True), (''author'', JStr ''Jane'')]
   \<and> map_of (mergeFrontmatter ''mt'' (Some [(''done'', JBool True), (''author'', JStr ''Jane'')])
               [(''done'', JBool True), (''author'', JStr ''unknown'')])
       ''author'' = Some (JStr ''Jane'')"
proof -
  have e: "wf_obj [(''done'', JBool True), (''author'', JStr ''Jane'')]"
    "frontmatterOrEmpty book_vault (file_path (mkfile ''note.md'' ''note''))
       = [(''done'', JBool True), (''author'', JStr ''Jane'')]"
    "mergedData_B mt_settings book_vault (mkfile ''note.md'' ''note'') [''Book'']
       = Inr [(''done'', JBool True), (''author'', JStr ''Jane'')]"
    by code_simp+
  show ?thesis
    using note_value_takes_precedence
            [of "[(''done'', JBool True), (''author'', JStr ''Jane'')]" "''author''"
               "JStr ''Jane''" book_vault "mkfile ''note.md'' ''note''" mt_settings "[''Book'']"
               "''mt''" "[(''done'', JBool True), (''author'', JStr ''unknown'')]"]
          e
    by simp
qed

text \<open>
  C1 as the specification states it fails in \<open>mergeFrontmatter\<close>: a note that is itself
  a template and references another one has \<open>tags: [mt, mt/Book]\<close>; after merging the
  template, the note's value for \<open>tags\<close> is \<open>[mt/Book]\<close>.
\<close>

theorem note_value_takes_precedence_counterexample:
  "map_of [(''tags'', JArr [JStr ''mt'', JStr ''mt/Book''])] ''tags''
     = Some (JArr [JStr ''mt'', JStr ''mt/Book''])
   \<and> map_of (mergeFrontmatter ''mt'' (Some [(''tags'', JArr [JStr ''mt'', JStr ''mt/Book''])])
               [(''tags'', JArr [JStr ''mt'']), (''author'', JStr ''unknown'')]) ''tags''
     = Some (JArr [JStr ''mt/Book''])
   \<and> JArr [JStr ''mt/Book''] \<noteq> JArr [JStr ''mt'', JStr ''mt/Book'']"
  by code_simp

section \<open>Pruning when a reference is removed\<close>

lemma get_prop_delete_other: "k \<noteq> q \<Longrightarrow> get_prop (delete_prop d q) k = get_prop d k"
  by (simp add: get_prop_def map_of_delete_prop)

lemma prunable_delete_other: "k \<noteq> q \<Longrightarrow> prunable t (delete_prop d q) k = prunable t d k"
  by (simp add: prunable_def get_prop_delete_other)

lemma pruneProps_result:
  assumes "\<not> hasOwn t ''hasOwnProperty''" and "distinct ks"
  shows "\<exists>d'. pruneProps (Some t) d ks = Inr d'
           \<and> (\<forall>k. map_of d' k = (if k \<in> set ks \<and> prunable t d k then None else map_of d k))"
  using assms(2)
proof (induction ks arbitrary: d)
  case Nil
  then show ?case by simp
next
  case (Cons q ks)
  let ?d1 = "if prunable t d q then delete_prop d q else d"
  have step: "pruneProps (Some t) d (q # ks) = pruneProps (Some t) ?d1 ks"
    using assms(1) by (auto simp: prunable_def Let_def)
  from Cons.prems have dist: "distinct ks" and q: "q \<notin> set ks" by auto
  from Cons.IH[OF dist, of ?d1] obtain d' where
    d': "pruneProps (Some t) ?d1 ks = Inr d'"
        "\<And>k. map_of d' k = (if k \<in> set ks \<and> prunable t ?d1 k then None else map_of ?d1 k)"
    by blast
  have "map_of d' k = (if k \<in> set (q # ks) \<and> prunable t d k then None else map_of d k)" for k
  proof (cases "k = q")
    case True
    then show ?thesis using d'(2)[of k] q by (simp add: map_of_delete_prop)
  next
    case False
    then show ?thesis using d'(2)[of k]
      by (auto simp: map_of_delete_prop prunable_delete_other)
  qed
  with d'(1) step show ?case by simp
qed

text \<open>
  C7, as the code has it. In the second file of part_000, for a template that resolves
  and whose front matter is a mapping \<open>t\<close> (without a key \<open>hasOwnProperty\<close>),
  \<open>removeEmptyTemplateProperties\<close> writes the note back with exactly the \<open>prunable\<close>
  properties removed: those that exist in the template and are \<open>""\<close> or null in the note,
  and those whose template value is a boolean that the note's value equals. Every other
  property keeps its value. In main.ts the function returns at once and the note is left
  as it is.
\<close>

theorem pruning_removes_prunable:
  assumes "wf_obj noteData" and "\<not> hasOwn t ''hasOwnProperty''"
  shows "\<exists>newData.
           pruneProps (Some t) (spread1 noteData) (keys (spread1 noteData)) = Inr newData
           \<and> (\<forall>k. map_of newData k = (if prunable t noteData k then None else map_of noteData k))
           \<and> (frontmatterOrEmpty h (file_path file) = noteData
              \<and> getTemplateFileByName s h metaTagName = Inr (Some templateFile)
              \<and> extractFrontmatter lib (fileText h (file_path templateFile)) = Inr (Some t)
              \<longrightarrow> removeEmptyTemplateProperties_B lib s h file metaTagName
                    = modify h (file_path file)
                        (replaceFrontMatter lib (fileText h (file_path file)) newData))
           \<and> removeEmptyTemplateProperties lib s h file metaTagName = Inr h"
proof -
  have sp: "spread1 noteData = noteData" using assms(1) by (rule spread1_wf)
  have "distinct (keys noteData)" using assms(1) by (simp add: wf_obj_def)
  from pruneProps_result[OF assms(2) this, of noteData] obtain d' where
    d': "pruneProps (Some t) noteData (keys noteData) = Inr d'"
        "\<And>k. map_of d' k
           = (if k \<in> set (keys noteData) \<and> prunable t noteData k then None else map_of noteData k)"
    by blast
  have "map_of d' k = (if prunable t noteData k then None else map_of noteData k)" for k
    using d'(2)[of k] by (auto simp: keys_def map_of_eq_None_iff)
  then show ?thesis
    using d'(1) sp
    by (auto simp: removeEmptyTemplateProperties_B_def removeEmptyTemplateProperties_def)
qed

text \<open>
  Scenario 4 of the specification: a note with \<open>author: ""\<close> loses \<open>author\<close>. In
  \<open>book_vault\<close> the note keeps \<open>author: Jane\<close>, and what is written is the pruned map.
\<close>

theorem pruning_removes_prunable_witness:
  "wf_obj [(''author'', JStr []), (''title'', JStr ''Emma'')]
   \<and> \<not> hasOwn [(''author'', JStr ''unknown'')] ''hasOwnProperty''
   \<and> pruneProps (Some [(''author'', JStr ''unknown'')])
        (spread1 [(''author'', JStr []), (''title'', JStr ''Emma'')])
        (keys (spread1 [(''author'', JStr []), (''title'', JStr ''Emma'')]))
       = Inr [(''title'', JStr ''Emma'')]
   \<and> frontmatterOrEmpty book_vault (file_path (mkfile ''note.md'' ''note''))
       = [(''done'', JBool True), (''author'', JStr ''Jane'')]
   \<and> getTemplateFileByName mt_settings book_vault ''Book'' = Inr (Some (mkfile ''mt/Book.md'' ''Book''))
   \<and> extractFrontmatter sample_lib (fileText book_vault (file_path (mkfile ''mt/Book.md'' ''Book'')))
       = Inr (Some [(''done'', JBool True), (''author'', JStr ''unknown'')])
   \<and> removeEmptyTemplateProperties_B sample_lib mt_settings book_vault (mkfile ''note.md'' ''note'') ''Book''
       = modify book_vault (file_path (mkfile ''note.md'' ''note''))
           (replaceFrontMatter sample_lib (fileText book_vault (file_path (mkfile ''note.md'' ''note'')))
              [(''author'', JStr ''Jane'')])"
proof -
  let ?note = "[(''done'', JBool True), (''author'', JStr ''Jane'')]"
  let ?t = "[(''done'', JBool True), (''author'', JStr ''unknown'')]"
  have e: "wf_obj [(''author'', JStr []), (''title'', JStr ''Emma'')]"
    "\<not> hasOwn [(''author'', JStr ''unknown'')] ''hasOwnProperty''"
    "pruneProps (Some [(''author'', JStr ''unknown'')])
        (spread1 [(''author'', JStr []), (''title'', JStr ''Emma'')])
        (keys (spread1 [(''author'', JStr []), (''title'', JStr ''Emma'')]))
       = Inr [(''title'', JStr ''Emma'')]"
    by code_simp+
  have b: "wf_obj ?note" "\<not> hasOwn ?t ''hasOwnProperty''"
    "frontmatterOrEmpty book_vault (file_path (mkfile ''note.md'' ''note'')) = ?note"
    "getTemplateFileByName mt_settings book_vault ''Book'' = Inr (Some (mkfile ''mt/Book.md'' ''Book''))"
    "extractFrontmatter sample_lib (fileText book_vault (file_path (mkfile ''mt/Book.md'' ''Book'')))
       = Inr (Some ?t)"
    "pruneProps (Some ?t) (spread1 ?note) (keys (spread1 ?note)) = Inr [(''author'', JStr ''Jane'')]"
    by code_simp+
  from pruning_removes_prunable[OF b(1,2), where h = book_vault
         and ?file = "mkfile ''note.md'' ''note''" and s = mt_settings and metaTagName = "''Book''"
         and templateFile = "mkfile ''mt/Book.md'' ''Book''" and lib = sample_lib]
       pruning_removes_prunable[OF e(1,2)]
  show ?thesis using e b by auto
qed

text \<open>
  C7 as the specification states it fails: the note of \<open>book_vault\<close> holds the real value
  \<open>done: true\<close>; the template has \<open>done: true\<close> too; when the tag \<open>mt/Book\<close> is removed
  with pruning enabled, the note is written back without \<open>done\<close>.
\<close>

theorem pruning_keeps_real_values_counterexample:
  "get_prop (frontmatterOrEmpty book_vault ''note.md'') ''done'' = JBool True
   \<and> \<not> empty_or_nullish (JBool True)
   \<and> deleteEmptyMetatagProperties mt_settings
   \<and> (case handleMetaTagRemoved_B sample_lib mt_settings book_vault (mkfile ''note.md'' ''note'')
            [''mt/Book''] of
        Inr h \<Rightarrow> events h = [Modify ''note.md'' ''---\<newline>author: Jane\<newline>---\<newline>\<newline>body'']
      | Inl e \<Rightarrow> False)"
  by code_simp

section \<open>Applying a template twice\<close>

text \<open>Spreading the same template again changes nothing, key order included.\<close>

lemma keys_obj_assign_prefix: "prefix (keys t) (keys (obj_assign t e))"
proof (induction e rule: rev_induct)
  case Nil
  then show ?case by (simp add: obj_assign_Nil)
next
  case (snoc a e)
  obtain k v where a: "a = (k, v)" by (cases a)
  have "prefix (keys (obj_assign t e)) (keys (set_prop (obj_assign t e) k v))"
    by (simp add: keys_def set_prop_def update_keys)
  with snoc show ?case
    using a by (auto simp: obj_assign_append obj_assign_Cons obj_assign_Nil intro: prefix_order.trans)
qed

lemma obj_assign_same_keys:
  "distinct (keys (p @ xs)) \<Longrightarrow> keys t = keys xs \<Longrightarrow> obj_assign (p @ t) xs = p @ xs"
proof (induction xs arbitrary: p t)
  case Nil
  then show ?case by (simp add: obj_assign_Nil keys_def)
next
  case (Cons a xs)
  obtain k v where a: "a = (k, v)" by (cases a)
  from Cons.prems(2) a obtain v0 t' where t: "t = (k, v0) # t'" "keys t' = keys xs"
    by (cases t) (auto simp: keys_def)
  from Cons.prems(1) a have kp: "k \<notin> fst ` set p" by (auto simp: keys_def)
  have upd: "set_prop (p @ (k, v0) # t') k v = (p @ [(k, v)]) @ t'"
    using kp by (induction p) (auto simp: set_prop_def)
  have "distinct (keys ((p @ [(k, v)]) @ xs))" using Cons.prems(1) a by (simp add: keys_def)
  from Cons.IH[OF this t(2)] show ?case using a t upd by (simp add: obj_assign_Cons)
qed

lemma obj_assign_absorb:
  assumes "wf_obj m" and "prefix (keys t) (keys m)"
  shows "obj_assign t m = m"
proof -
  define m1 where "m1 = take (length t) m"
  define m2 where "m2 = drop (length t) m"
  have m: "m = m1 @ m2" by (simp add: m1_def m2_def)
  from assms(2) have k1: "keys t = keys m1"
    by (auto simp: prefix_def keys_def m1_def take_map[symmetric] dest: arg_cong[where f = "take (length t)"])
  have d: "distinct (keys ([] @ m1))" using assms(1) m by (simp add: wf_obj_def keys_def)
  have 1: "obj_assign t m1 = m1" using obj_assign_same_keys[OF d k1] by simp
  have "wf_obj m2" "set (keys m1) \<inter> set (keys m2) = {}"
    using assms(1) m by (auto simp: wf_obj_def keys_def)
  then have "obj_assign m1 m2 = m1 @ m2" by (rule obj_assign_disjoint)
  then show ?thesis using m 1 by (simp add: obj_assign_append)
qed

lemma spread2_absorb:
  assumes "wf_obj m" and "keys m = keys (spread2 t e)"
  shows "spread2 t m = m"
  unfolding spread2_def
  using assms keys_obj_assign_prefix[of "obj_assign [] t" e]
  by (intro obj_assign_absorb) (simp_all add: spread2_def)

lemma spread2_idem: "spread2 t (spread2 t e) = spread2 t e"
  by (rule spread2_absorb) (simp_all add: wf_spread2)

text \<open>The filter on the merged tags.\<close>

lemma mergeFrontmatter_stripBase:
  "mergeFrontmatter tb ex t = stripBase tb (spread2 t (case ex of None \<Rightarrow> [] | Some e \<Rightarrow> e))"
  by (simp add: mergeFrontmatter_def stripBase_def Let_def)

lemma get_prop_tags_JArr: "get_prop m ''tags'' = JArr ts \<Longrightarrow> map_of m ''tags'' = Some (JArr ts)"
  by (auto simp: get_prop_def object_prototype_keys_def split: option.splits if_splits)

lemma keys_stripBase: "keys (stripBase tb m) = keys m"
proof (cases "get_prop m ''tags''")
  case (JArr ts)
  then have "''tags'' \<in> set (map fst m)"
    using get_prop_tags_JArr[OF JArr] by (metis map_of_eq_None_iff option.distinct(1) set_map)
  then show ?thesis using JArr by (simp add: stripBase_def keys_def set_prop_def update_keys)
qed (simp_all add: stripBase_def)

lemma wf_stripBase: "wf_obj m \<Longrightarrow> wf_obj (stripBase tb m)"
  by (simp add: wf_obj_def keys_stripBase)

lemma stripBase_idem: "stripBase tb (stripBase tb m) = stripBase tb m"
proof (cases "get_prop m ''tags''")
  case (JArr ts)
  then have "get_prop (stripBase tb m) ''tags'' = JArr (filter (\<lambda>tag. tag \<noteq> JStr tb) ts)"
    by (simp add: stripBase_def get_prop_def map_of_set_prop)
  then show ?thesis using JArr by (simp add: stripBase_def set_prop_def)
qed (simp_all add: stripBase_def)

lemma mergeFrontmatter_idem:
  "mergeFrontmatter tb (Some (mergeFrontmatter tb ex t)) t = mergeFrontmatter tb ex t"
proof -
  let ?e = "case ex of None \<Rightarrow> [] | Some e \<Rightarrow> e"
  let ?m = "stripBase tb (spread2 t ?e)"
  have "spread2 t ?m = ?m"
    by (rule spread2_absorb[where e = ?e]) (simp_all add: wf_stripBase wf_spread2 keys_stripBase)
  then show ?thesis by (simp add: mergeFrontmatter_stripBase stripBase_idem)
qed

text \<open>
  Reading back what \<open>updateContentWithFrontmatter\<close> wrote: when the serialised mapping has
  no line that starts with three dashes, the regular expression finds exactly the block.
\<close>

lemma no_close_before:
  assumes "\<not> includes_str S fmClose" and "j < length S"
  shows "\<not> prefix fmClose (drop j (S @ fmClose @ r))"
proof
  assume p: "prefix fmClose (drop j (S @ fmClose @ r))"
  from assms(1) have none: "first_occ fmClose S = None" by (simp add: includes_str_def)
  define d where "d = drop j S"
  have d: "d \<noteq> []" using assms(2) by (auto simp: d_def)
  have nd: "\<not> prefix fmClose d"
    using first_occ_NoneD[OF none, of j] assms(2) by (simp add: d_def)
  from p have p': "prefix fmClose (d @ fmClose @ r)" using assms(2) by (simp add: d_def)
  from d obtain x xs where dx: "d = x # xs" by (cases d) auto
  show False
  proof (cases xs)
    case Nil
    with dx p' show False by (auto simp: fmClose_def)
  next
    case (Cons y ys)
    show False
    proof (cases ys)
      case Nil
      with Cons dx p' show False by (auto simp: fmClose_def)
    next
      case (Cons z zs)
      with \<open>xs = y # ys\<close> dx p' nd show False by (cases zs) (auto simp: fmClose_def)
    qed
  qed
qed

lemma first_close:
  assumes "\<not> includes_str S fmClose"
  shows "first_occ fmClose (S @ fmClose @ r) = Some (length S)"
proof (rule first_occ_SomeI)
  show "prefix fmClose (drop (length S) (S @ fmClose @ r))" by simp
  show "length S \<le> length (S @ fmClose @ r)" by simp
  show "\<forall>j<length S. \<not> prefix fmClose (drop j (S @ fmClose @ r))"
    using no_close_before[OF assms] by blast
qed

lemma frontmatterMatch_block:
  assumes "\<not> includes_str S fmClose"
  shows "frontmatterMatch (fmOpen @ S @ fmClose @ r) = Some (S, 4 + length S + 4)"
proof -
  have "drop 4 (fmOpen @ S @ fmClose @ r) = S @ fmClose @ r" by (simp add: fmOpen_def)
  then show ?thesis
    using first_close[OF assms, of r] by (simp add: frontmatterMatch_def)
qed

lemma updateContent_shape:
  "yaml_stringify lib m = S @ ''\<newline>'' \<Longrightarrow>
     updateContentWithFrontmatter lib content m
       = fmOpen @ S @ fmClose @ (''\<newline>\<newline>'' @ existingBody content)"
  by (simp add: updateContentWithFrontmatter_def fmOpen_def fmClose_def)

lemma extract_after_update:
  assumes "yaml_stringify lib m = S @ ''\<newline>''" and "\<not> includes_str S fmClose"
    and "yaml_parse lib S = Inr (Some m)"
  shows "extractFrontmatter lib (updateContentWithFrontmatter lib content m) = Inr (Some m)"
  using assms(3)
  by (simp add: updateContent_shape[OF assms(1)] frontmatterMatch_block[OF assms(2)]
        extractFrontmatter_def try_catch_def)

text \<open>What \<open>applyTemplateMetadata\<close> reads of the host: the files and the index.\<close>

lemma mergeTemplateData_cong:
  assumes "\<forall>n \<in> set names. \<forall>tf. resolve n = Some tf
             \<longrightarrow> frontmatterOrEmpty h2 tf = frontmatterOrEmpty h1 tf"
  shows "mergeTemplateData resolve h2 acc names = mergeTemplateData resolve h1 acc names"
  using assms by (induction names arbitrary: acc) (auto split: option.splits)

lemma frontmatterOrEmpty_reindex:
  "frontmatterOrEmpty (reindex h p d) q = (if q = p then d else frontmatterOrEmpty h q)"
  by (simp add: reindex_def frontmatterOrEmpty_def cachedFrontmatter_def)

lemma templateFileOf_reindex: "templateFileOf s (reindex h p d) = templateFileOf s h"
  by (simp add: fun_eq_iff templateFileOf_def getAbstractFileByPath_def reindex_def)

lemma modify_reads:
  "modify h p c = Inr h' \<Longrightarrow>
     markdownFiles h' = markdownFiles h \<and> folders h' = folders h \<and> fileCache h' = fileCache h"
  by (auto simp: modify_def split: if_splits)

lemma mergedData_after_write:
  assumes "modify h p c = Inr h'"
  shows "mergedData s h' file names = mergedData s h file names"
proof -
  from modify_reads[OF assms] have
    "templateFileOf s h' = templateFileOf s h" "frontmatterOrEmpty h' = frontmatterOrEmpty h"
    by (simp_all add: fun_eq_iff templateFileOf_def getAbstractFileByPath_def
          frontmatterOrEmpty_def cachedFrontmatter_def)
  moreover from this have
    "mergeTemplateData (templateFileOf s h) h' [] names
       = mergeTemplateData (templateFileOf s h) h [] names"
    by (intro mergeTemplateData_cong) simp
  ultimately show ?thesis by (simp add: mergedData_def)
qed

lemma mergedData_reindexed:
  assumes "\<forall>n \<in> set names. templateFileOf s h n \<noteq> Some (file_path file)"
  shows "mergedData s (reindex h (file_path file) (mergedData s h file names)) file names
           = mergedData s h file names"
proof -
  let ?h2 = "reindex h (file_path file) (mergedData s h file names)"
  have "mergeTemplateData (templateFileOf s h) ?h2 [] names
          = mergeTemplateData (templateFileOf s h) h [] names"
    using assms by (intro mergeTemplateData_cong) (auto simp: frontmatterOrEmpty_reindex)
  then show ?thesis
    by (simp add: mergedData_def[of s ?h2] templateFileOf_reindex frontmatterOrEmpty_reindex)
       (simp add: mergedData_def spread2_idem)
qed

lemma applyMetadataTemplate_twice:
  assumes "\<not> suppressChange p"
    and "getAbstractFileByPath h (name @ ''.md'') = Some (TFile tf)"
    and "file_path tf \<noteq> file_path file"
    and "extractFrontmatter lib (fileText h (file_path tf)) = Inr (Some tfm)"
    and "extractFrontmatter lib (fileText h (file_path file)) = Inr ex"
    and "merged = mergeFrontmatter (tagBase (settings_A p)) ex tfm"
    and "yaml_stringify lib merged = S @ ''\<newline>''"
    and "\<not> includes_str S fmClose"
    and "yaml_parse lib S = Inr (Some merged)"
    and "r = applyMetadataTemplate lib p h file name"
    and "snd (snd r) = None"
  shows "extractFrontmatter lib (fileText (fst (snd r)) (file_path file)) = Inr (Some merged)
       \<and> applyMetadataTemplate lib (fst r) (fst (snd r)) file name = (fst r, fst (snd r), None)"
proof (cases "sameJSON ex merged")
  case True
  then have r: "r = (p, h, None)"
    using assms(1,2,4,5,6,10) by (simp add: applyMetadataTemplate_def Let_def)
  then show ?thesis using True assms(5) by (simp add: assms(10)[symmetric] sameJSON_def)
next
  case False
  let ?c = "updateContentWithFrontmatter lib (fileText h (file_path file)) merged"
  have r: "r = (case modify h (file_path file) ?c of
                  Inl e \<Rightarrow> (p\<lparr>suppressChange := False\<rparr>, h, Some e)
                | Inr h' \<Rightarrow> (p\<lparr>suppressChange := False\<rparr>, h', None))"
    using False assms(1,2,4,5,10) by (simp add: applyMetadataTemplate_def Let_def assms(6)[symmetric])
  with assms(11) obtain h' where h': "modify h (file_path file) ?c = Inr h'"
    and r': "r = (p\<lparr>suppressChange := False\<rparr>, h', None)"
    by (auto split: sum.splits)
  have p: "p\<lparr>suppressChange := False\<rparr> = p" using assms(1) by simp
  have t1: "fileText h' (file_path file) = ?c"
    and t2: "fileText h' (file_path tf) = fileText h (file_path tf)"
    and t3: "getAbstractFileByPath h' (name @ ''.md'') = Some (TFile tf)"
    using h' assms(2,3) by (auto simp: modify_def getAbstractFileByPath_def split: if_splits)
  have x: "extractFrontmatter lib ?c = Inr (Some merged)"
    using assms(7,8,9) by (rule extract_after_update)
  have m: "mergeFrontmatter (tagBase (settings_A p)) (Some merged) tfm = merged"
    unfolding assms(6) by (rule mergeFrontmatter_idem)
  have "applyMetadataTemplate lib p h' file name = (p, h', None)"
    using assms(1,4) t1 t2 t3 x m
    by (simp add: applyMetadataTemplate_def Let_def sameJSON_def)
  then show ?thesis using r' p t1 x by simp
qed

text \<open>
  C6, as the code has it. In the first file of part_000, \<open>applyMetadataTemplate\<close> writes
  only when the merged front matter differs from the one it parsed: if they are the same
  nothing changes; and after an application that did not fail, provided the YAML library
  reads back the merged mapping it wrote (the text ends in a line feed and has no line
  starting with three dashes), the note parses to the merged front matter and a second
  application changes nothing. In main.ts, \<open>applyTemplateMetadata\<close> has no comparison:
  whenever the host accepts the write it writes, also when the merged map is the note's
  own; once the host has indexed the written front matter, the merged map of a second
  application is the same map.
\<close>

theorem write_only_on_change:
  assumes "\<not> suppressChange p"
    and "getAbstractFileByPath h (name @ ''.md'') = Some (TFile tf)"
    and "file_path tf \<noteq> file_path file"
    and "extractFrontmatter lib (fileText h (file_path tf)) = Inr (Some tfm)"
    and "extractFrontmatter lib (fileText h (file_path file)) = Inr ex"
    and "merged = mergeFrontmatter (tagBase (settings_A p)) ex tfm"
    and "r = applyMetadataTemplate lib p h file name"
  shows "(sameJSON ex merged \<longrightarrow> r = (p, h, None))
       \<and> (snd (snd r) = None \<and> yaml_stringify lib merged = S @ ''\<newline>'' \<and> \<not> includes_str S fmClose
            \<and> yaml_parse lib S = Inr (Some merged) \<longrightarrow>
            extractFrontmatter lib (fileText (fst (snd r)) (file_path file)) = Inr (Some merged)
            \<and> applyMetadataTemplate lib (fst r) (fst (snd r)) file name = (fst r, fst (snd r), None))
       \<and> (\<not> rejectsWrite h0 (file_path file0) \<longrightarrow>
            (\<exists>h'. applyTemplateMetadata lib s h0 file0 names = Inr h'
               \<and> events h' = events h0 @
                    [Modify (file_path file0)
                       (replaceFrontMatter lib (fileText h0 (file_path file0))
                          (mergedData s h0 file0 names))]
               \<and> ((\<forall>n \<in> set names. templateFileOf s h0 n \<noteq> Some (file_path file0)) \<longrightarrow>
                    mergedData s (reindex h' (file_path file0) (mergedData s h0 file0 names))
                      file0 names
                    = mergedData s h0 file0 names)))"
proof (intro conjI impI)
  assume "sameJSON ex merged"
  then show "r = (p, h, None)"
    using assms by (simp add: applyMetadataTemplate_def Let_def)
next
  assume a: "snd (snd r) = None \<and> yaml_stringify lib merged = S @ ''\<newline>''
             \<and> \<not> includes_str S fmClose \<and> yaml_parse lib S = Inr (Some merged)"
  with applyMetadataTemplate_twice[OF assms(1-6) _ _ _ assms(7), of S]
  show "extractFrontmatter lib (fileText (fst (snd r)) (file_path file)) = Inr (Some merged)"
    and "applyMetadataTemplate lib (fst r) (fst (snd r)) file name = (fst r, fst (snd r), None)"
    by simp_all
next
  assume w: "\<not> rejectsWrite h0 (file_path file0)"
  let ?c = "replaceFrontMatter lib (fileText h0 (file_path file0)) (mergedData s h0 file0 names)"
  from w obtain h' where h': "modify h0 (file_path file0) ?c = Inr h'"
    by (simp add: modify_def)
  have 1: "applyTemplateMetadata lib s h0 file0 names = Inr h'"
    using h' by (simp add: applyTemplateMetadata_def Let_def)
  have 2: "events h' = events h0 @ [Modify (file_path file0) ?c]"
    using h' by (auto simp: modify_def split: if_splits)
  have 3: "mergedData s (reindex h' (file_path file0) (mergedData s h0 file0 names)) file0 names
             = mergedData s h0 file0 names"
    if "\<forall>n \<in> set names. templateFileOf s h0 n \<noteq> Some (file_path file0)"
  proof -
    have same: "mergedData s h' file0 names = mergedData s h0 file0 names"
      using h' by (rule mergedData_after_write)
    have "templateFileOf s h' = templateFileOf s h0"
      using modify_reads[OF h'] by (simp add: fun_eq_iff templateFileOf_def getAbstractFileByPath_def)
    with that have "\<forall>n \<in> set names. templateFileOf s h' n \<noteq> Some (file_path file0)" by simp
    from mergedData_reindexed[OF this] show ?thesis by (simp add: same)
  qed
  show "\<exists>h'. applyTemplateMetadata lib s h0 file0 names = Inr h'
          \<and> events h' = events h0 @ [Modify (file_path file0) ?c]
          \<and> ((\<forall>n \<in> set names. templateFileOf s h0 n \<noteq> Some (file_path file0)) \<longrightarrow>
               mergedData s (reindex h' (file_path file0) (mergedData s h0 file0 names)) file0 names
               = mergedData s h0 file0 names)"
    using 1 2 3 by blast
qed

text \<open>
  In \<open>vault_A\<close> the note gains \<open>author: unknown\<close> on the first application of \<open>Book\<close>; the
  second application finds the merged front matter in the note and writes nothing. In
  \<open>book_vault\<close> main.ts writes the note, and merges to the same map once the note is
  indexed again.
\<close>

theorem write_only_on_change_witness:
  "\<not> suppressChange plugin_A0
   \<and> getAbstractFileByPath vault_A (''Book'' @ ''.md'') = Some (TFile (mkfile ''Book.md'' ''Book''))
   \<and> snd (snd (applyMetadataTemplate sample_lib plugin_A0 vault_A (mkfile ''note.md'' ''note'') ''Book''))
       = None
   \<and> events (fst (snd (applyMetadataTemplate sample_lib plugin_A0 vault_A
                         (mkfile ''note.md'' ''note'') ''Book'')))
       = [Modify ''note.md''
            ''---\<newline>author: unknown\<newline>tags: mt/Book\<newline>rating: null\<newline>title: Emma\<newline>---\<newline>\<newline>body'']
   \<and> applyMetadataTemplate sample_lib
        (fst (applyMetadataTemplate sample_lib plugin_A0 vault_A (mkfile ''note.md'' ''note'') ''Book''))
        (fst (snd (applyMetadataTemplate sample_lib plugin_A0 vault_A
                     (mkfile ''note.md'' ''note'') ''Book'')))
        (mkfile ''note.md'' ''note'') ''Book''
       = (fst (applyMetadataTemplate sample_lib plugin_A0 vault_A (mkfile ''note.md'' ''note'') ''Book''),
          fst (snd (applyMetadataTemplate sample_lib plugin_A0 vault_A
                      (mkfile ''note.md'' ''note'') ''Book'')),
          None)
   \<and> \<not> rejectsWrite book_vault (file_path (mkfile ''note.md'' ''note''))
   \<and> templateFileOf mt_settings book_vault ''Book'' \<noteq> Some (file_path (mkfile ''note.md'' ''note''))
   \<and> (case applyTemplateMetadata sample_lib mt_settings book_vault (mkfile ''note.md'' ''note'')
            [''Book''] of
        Inr h' \<Rightarrow>
          events h' = [Modify ''note.md'' ''---\<newline>done: true\<newline>author: Jane\<newline>---\<newline>\<newline>body'']
          \<and> mergedData mt_settings
               (reindex h' ''note.md''
                  (mergedData mt_settings book_vault (mkfile ''note.md'' ''note'') [''Book'']))
               (mkfile ''note.md'' ''note'') [''Book'']
             = mergedData mt_settings book_vault (mkfile ''note.md'' ''note'') [''Book'']
      | Inl e \<Rightarrow> False)"
proof -
  let ?merged = "[(''author'', JStr ''unknown''), (''tags'', JStr ''mt/Book''),
                  (''rating'', JNull), (''title'', JStr ''Emma'')]"
  let ?S = "''author: unknown\<newline>tags: mt/Book\<newline>rating: null\<newline>title: Emma''"
  have e: "\<not> suppressChange plugin_A0"
    "getAbstractFileByPath vault_A (''Book'' @ ''.md'') = Some (TFile (mkfile ''Book.md'' ''Book''))"
    "file_path (mkfile ''Book.md'' ''Book'') \<noteq> file_path (mkfile ''note.md'' ''note'')"
    "extractFrontmatter sample_lib (fileText vault_A (file_path (mkfile ''Book.md'' ''Book'')))
       = Inr (Some [(''author'', JStr ''unknown'')])"
    "extractFrontmatter sample_lib (fileText vault_A (file_path (mkfile ''note.md'' ''note'')))
       = Inr (Some bound_note_data)"
    "?merged = mergeFrontmatter (tagBase (settings_A plugin_A0)) (Some bound_note_data)
                 [(''author'', JStr ''unknown'')]"
    by code_simp+
  have v: "snd (snd (applyMetadataTemplate sample_lib plugin_A0 vault_A
                       (mkfile ''note.md'' ''note'') ''Book'')) = None"
    "yaml_stringify sample_lib ?merged = ?S @ ''\<newline>''"
    "\<not> includes_str ?S fmClose"
    "yaml_parse sample_lib ?S = Inr (Some ?merged)"
    "events (fst (snd (applyMetadataTemplate sample_lib plugin_A0 vault_A
                         (mkfile ''note.md'' ''note'') ''Book'')))
       = [Modify ''note.md''
            ''---\<newline>author: unknown\<newline>tags: mt/Book\<newline>rating: null\<newline>title: Emma\<newline>---\<newline>\<newline>body'']"
    by code_simp+
  have w: "\<not> rejectsWrite book_vault (file_path (mkfile ''note.md'' ''note''))"
    "templateFileOf mt_settings book_vault ''Book'' \<noteq> Some (file_path (mkfile ''note.md'' ''note''))"
    "(case applyTemplateMetadata sample_lib mt_settings book_vault (mkfile ''note.md'' ''note'')
            [''Book''] of
        Inr h' \<Rightarrow>
          events h' = [Modify ''note.md'' ''---\<newline>done: true\<newline>author: Jane\<newline>---\<newline>\<newline>body'']
          \<and> mergedData mt_settings
               (reindex h' ''note.md''
                  (mergedData mt_settings book_vault (mkfile ''note.md'' ''note'') [''Book'']))
               (mkfile ''note.md'' ''note'') [''Book'']
             = mergedData mt_settings book_vault (mkfile ''note.md'' ''note'') [''Book'']
      | Inl e \<Rightarrow> False)"
    by code_simp+
  from write_only_on_change[OF e refl, where S = ?S and ?h0.0 = book_vault
         and ?file0.0 = "mkfile ''note.md'' ''note''" and s = mt_settings and names = "[''Book'']"]
  show ?thesis using e(1,2) v w by simp
qed

text \<open>
  C6 as the specification states it fails in main.ts: in \<open>book_vault\<close> the merged map is
  the note's own property map, and \<open>applyTemplateMetadata\<close> still writes the note.
\<close>

theorem identical_map_is_written_counterexample:
  "mergedData mt_settings book_vault (mkfile ''note.md'' ''note'') [''Book'']
     = frontmatterOrEmpty book_vault ''note.md''
   \<and> events book_vault = []
   \<and> (case applyTemplateMetadata sample_lib mt_settings book_vault (mkfile ''note.md'' ''note'')
            [''Book''] of
        Inr h' \<Rightarrow> events h' = [Modify ''note.md'' book_note_text]
      | Inl e \<Rightarrow> False)"
  by code_simp
section \<open>Propagation of a template change: snapshot and confirmation\<close>

lemma syncNotes_previousTemplateState:
  "previousTemplateState (fst (syncNotes lib n del newFm p h fs)) = previousTemplateState p"
proof (induction fs arbitrary: p h)
  case Nil
  then show ?case by simp
next
  case (Cons f fs)
  show ?case
    by (simp add: Cons.IH Let_def split: sum.splits)
qed

lemma syncNotes_events:
  "\<exists>rest. events (fst (snd (syncNotes lib n del newFm p h fs))) = events h @ rest"
proof (induction fs arbitrary: p h)
  case Nil
  then show ?case by simp
next
  case (Cons f fs)
  have m: "modify h q newText = Inr h' \<Longrightarrow> events h' = events h @ [Modify q newText]" for q newText h'
    by (auto simp: modify_def split: if_splits)
  show ?case
  proof (cases "syncNotes lib n del newFm p h (f # fs) = (p, h, snd (snd (syncNotes lib n del newFm p h (f # fs))))
                \<or> (\<exists>e. syncNotes lib n del newFm p h (f # fs) = (p\<lparr>suppressChange := True\<rparr>, h, Some e))")
    case True
    then show ?thesis by (metis append_Nil2 fst_conv snd_conv)
  next
    case False
    then consider
      (skip) "syncNotes lib n del newFm p h (f # fs) = syncNotes lib n del newFm p h fs"
      | (wrote) q newText h' where "modify h q newText = Inr h'"
          "syncNotes lib n del newFm p h (f # fs)
             = syncNotes lib n del newFm (p\<lparr>suppressChange := False\<rparr>) h' fs"
      by (auto simp: Let_def split: sum.splits if_splits)
    then show ?thesis
    proof cases
      case skip
      then show ?thesis using Cons.IH[of p h] by simp
    next
      case wrote
      from Cons.IH[of "p\<lparr>suppressChange := False\<rparr>" h'] obtain rest where
        "events (fst (snd (syncNotes lib n del newFm (p\<lparr>suppressChange := False\<rparr>) h' fs)))
           = events h' @ rest" by blast
      then show ?thesis using wrote m[OF wrote(1)] by simp
    qed
  qed
qed

lemma propagate_snapshot:
  "previousTemplateState (fst (propagate lib n del newFm p h)) n = Some newFm"
  by (simp add: propagate_def syncNotes_previousTemplateState)

lemma propagate_events:
  "\<exists>rest. events (fst (snd (propagate lib n del newFm p h))) = events h @ rest"
  by (simp add: propagate_def syncNotes_events)

lemma handleTemplateMetadataChange_snapshot:
  "templateCache (fst (handleTemplateMetadataChange lib p h templateFile)) (file_path templateFile)
     = Some (frontmatterOrEmpty h (file_path templateFile))"
  by (simp add: handleTemplateMetadataChange_def Let_def split_def)

lemma syncNotesWithTemplate_snapshot:
  assumes "getAbstractFileByPath h (name @ ''.md'') = Some (TFile tf)"
    and "extractFrontmatter lib (fileText h (file_path tf)) = Inr (Some newFm)"
    and "getDeletedProperties (case previousTemplateState p name of None \<Rightarrow> [] | Some d \<Rightarrow> d)
           newFm = []
         \<or> confirmAnswer h
             (confirmMessage name
                (getDeletedProperties
                   (case previousTemplateState p name of None \<Rightarrow> [] | Some d \<Rightarrow> d) newFm))"
  shows "previousTemplateState (fst (syncNotesWithTemplate lib p h name)) name = Some newFm"
  using assms
  by (auto simp: syncNotesWithTemplate_def Let_def confirm_def propagate_snapshot)

text \<open>
  C5, as the code has it. The snapshot is stored before propagation starts, not after it.
  In main.ts \<open>handleTemplateMetadataChange\<close> sets \<open>templateCache\<close> to the new property map
  first: whatever the loop over the notes does, a rejected write included, the entry
  of the template afterwards is the new map. In the first file of part_000,
  \<open>syncNotesWithTemplate\<close> sets \<open>previousTemplateState\<close> as soon as no property was
  deleted or the deletion was confirmed, and again before any note is visited.
\<close>

theorem snapshot_stored_before_propagation:
  "templateCache (fst (handleTemplateMetadataChange lib p h templateFile)) (file_path templateFile)
     = Some (frontmatterOrEmpty h (file_path templateFile))
   \<and> (getAbstractFileByPath h (name @ ''.md'') = Some (TFile tf)
      \<and> extractFrontmatter lib (fileText h (file_path tf)) = Inr (Some newFm)
      \<and> (getDeletedProperties
            (case previousTemplateState pa name of None \<Rightarrow> [] | Some d \<Rightarrow> d) newFm = []
          \<or> confirmAnswer h
              (confirmMessage name
                 (getDeletedProperties
                    (case previousTemplateState pa name of None \<Rightarrow> [] | Some d \<Rightarrow> d) newFm)))
      \<longrightarrow> previousTemplateState (fst (syncNotesWithTemplate lib pa h name)) name = Some newFm)"
  using handleTemplateMetadataChange_snapshot syncNotesWithTemplate_snapshot by blast

text \<open>
  The template that dropped \<open>rating\<close>, with the deletion confirmed: the stored state of
  \<open>Book\<close> is the new front matter.
\<close>

theorem snapshot_stored_before_propagation_witness:
  "getAbstractFileByPath confirming_vault_A (''Book'' @ ''.md'') = Some (TFile (mkfile ''Book.md'' ''Book''))
   \<and> extractFrontmatter sample_lib (fileText confirming_vault_A (file_path (mkfile ''Book.md'' ''Book'')))
       = Inr (Some [(''author'', JStr ''unknown'')])
   \<and> confirmAnswer confirming_vault_A
        (confirmMessage ''Book''
           (getDeletedProperties
              (case previousTemplateState plugin_A0 ''Book'' of None \<Rightarrow> [] | Some d \<Rightarrow> d)
              [(''author'', JStr ''unknown'')]))
   \<and> previousTemplateState (fst (syncNotesWithTemplate sample_lib plugin_A0 confirming_vault_A ''Book''))
        ''Book'' = Some [(''author'', JStr ''unknown'')]"
proof -
  have e: "getAbstractFileByPath confirming_vault_A (''Book'' @ ''.md'')
             = Some (TFile (mkfile ''Book.md'' ''Book''))"
    "extractFrontmatter sample_lib (fileText confirming_vault_A (file_path (mkfile ''Book.md'' ''Book'')))
       = Inr (Some [(''author'', JStr ''unknown'')])"
    "confirmAnswer confirming_vault_A
        (confirmMessage ''Book''
           (getDeletedProperties
              (case previousTemplateState plugin_A0 ''Book'' of None \<Rightarrow> [] | Some d \<Rightarrow> d)
              [(''author'', JStr ''unknown'')]))"
    by code_simp+
  show ?thesis
    using snapshot_stored_before_propagation
            [where lib = sample_lib and h = confirming_vault_A and name = "''Book''"
               and tf = "mkfile ''Book.md'' ''Book''" and newFm = "[(''author'', JStr ''unknown'')]"
               and pa = plugin_A0]
          e
    by simp
qed

text \<open>
  C5 as the specification states it fails: in \<open>readonly_vault\<close> the write to the bound
  note is rejected; \<open>handleTemplateMetadataChange\<close> ends with that failure, and the
  snapshot of the template, which was the old property map, is already the new one.
\<close>

theorem snapshot_after_failed_write_counterexample:
  "templateCache sync_plugin ''mt/Book.md''
     = Some [(''rating'', JStr ''n/a''), (''author'', JStr ''unknown'')]
   \<and> snd (snd (handleTemplateMetadataChange sample_lib sync_plugin readonly_vault
                  (mkfile ''mt/Book.md'' ''Book''))) = Some (WriteFailure ''note.md'')
   \<and> templateCache (fst (handleTemplateMetadataChange sample_lib sync_plugin readonly_vault
                            (mkfile ''mt/Book.md'' ''Book''))) ''mt/Book.md''
       = Some [(''author'', JStr ''unknown'')]"
  by code_simp
lemma keys_obj_assign_src: "set (keys s) \<subseteq> set (keys (obj_assign t s))"
proof (induction s arbitrary: t)
  case Nil
  then show ?case by (simp add: keys_def)
next
  case (Cons a s)
  obtain k v where a: "a = (k, v)" by (cases a)
  have "k \<in> set (keys (set_prop t k v))" by (simp add: keys_def set_prop_def dom_update)
  moreover have "set (keys (set_prop t k v)) \<subseteq> set (keys (obj_assign (set_prop t k v) s))"
    using keys_obj_assign_prefix[of "set_prop t k v" s] by (auto dest: set_mono_prefix)
  ultimately show ?case using a Cons.IH[of "set_prop t k v"]
    by (auto simp: obj_assign_Cons keys_def)
qed

lemma mergeFrontmatter_keeps_keys:
  "hasOwn ex q \<Longrightarrow> hasOwn (mergeFrontmatter tb (Some ex) t) q"
  using keys_obj_assign_src[of ex "obj_assign [] t"]
  by (auto simp: mergeFrontmatter_stripBase hasOwn_def keys_stripBase spread2_def)

text \<open>
  C4, as the code has it: the first file of part_000. If the change of the template
  \<open>name\<close> makes a bound note \<open>f\<close> lose a property \<open>q\<close> (the note has \<open>q\<close>, and after the
  removal of deleted empty properties and the merge it has not), then some property was
  deleted from the template, \<open>window.confirm\<close> is the first effect of
  \<open>syncNotesWithTemplate\<close>, before any write, and when the answer is no: the stored state
  is not advanced, no file but the template is touched, and the template is written
  back as the previous front matter followed by its body (or the run ends with the
  failure of that write).
\<close>

theorem destructive_change_asks_first:
  assumes "getAbstractFileByPath h (name @ ''.md'') = Some (TFile tf)"
    and "extractFrontmatter lib (fileText h (file_path tf)) = Inr (Some newFm)"
    and "prev = (case previousTemplateState p name of None \<Rightarrow> [] | Some d \<Rightarrow> d)"
    and "deleted = getDeletedProperties prev newFm"
    and "f \<in> set (markdownFiles h)"
    and "tagsInclude h (file_path f) (tagBase (settings_A p) @ ''/'' @ name) = Inr True"
    and "extractFrontmatter lib (fileText h (file_path f)) = Inr (Some ex)"
    and "hasOwn ex q"
    and "deleteEmptyProps (Some ex) deleted = Inr ex'"
    and "\<not> hasOwn (mergeFrontmatter (tagBase (settings_A p)) ex' newFm) q"
    and "msg = confirmMessage name deleted"
    and "r = syncNotesWithTemplate lib p h name"
  shows "deleted \<noteq> []
       \<and> (\<exists>rest. events (fst (snd r)) = events h @ Confirm msg # rest)
       \<and> (\<not> confirmAnswer h msg \<longrightarrow>
            fst r = p
            \<and> (\<forall>path. path \<noteq> file_path tf \<longrightarrow> fileText (fst (snd r)) path = fileText h path)
            \<and> (if rejectsWrite h (file_path tf)
               then snd (snd r) = Some (WriteFailure (file_path tf))
                    \<and> fileText (fst (snd r)) (file_path tf) = fileText h (file_path tf)
                    \<and> events (fst (snd r)) = events h @ [Confirm msg]
               else snd (snd r) = None
                    \<and> fileText (fst (snd r)) (file_path tf)
                        = revertedContent lib prev (fileText h (file_path tf))
                    \<and> events (fst (snd r))
                        = events h @ [Confirm msg,
                            Modify (file_path tf)
                              (revertedContent lib prev (fileText h (file_path tf)))]))"
proof -
  have d: "deleted \<noteq> []"
  proof
    assume "deleted = []"
    with assms(9) have "ex' = Some ex" by simp
    with assms(8,10) show False by (simp add: mergeFrontmatter_keeps_keys)
  qed
  let ?h1 = "h\<lparr>events := events h @ [Confirm msg]\<rparr>"
  have c: "confirm h msg = (confirmAnswer h msg, ?h1)" by (simp add: confirm_def)
  have eqs: "(case previousTemplateState p name of None \<Rightarrow> [] | Some d \<Rightarrow> d) = prev"
    "getDeletedProperties prev newFm = deleted" "confirmMessage name deleted = msg"
    using assms(3,4,11) by simp_all
  have unf: "r = (if deleted \<noteq> []
                  then (if \<not> confirmAnswer h msg
                        then (case modify ?h1 (file_path tf)
                                     (revertedContent lib prev (fileText h (file_path tf))) of
                                Inl e \<Rightarrow> (p, ?h1, Some e)
                              | Inr h2 \<Rightarrow> (p, h2, None))
                        else propagate lib name deleted newFm p ?h1)
                  else propagate lib name deleted newFm p h)"
    unfolding assms(12) syncNotesWithTemplate_def
    by (simp add: assms(1,2) Let_def eqs c)
  show ?thesis
  proof (cases "confirmAnswer h msg")
    case True
    then have r: "r = propagate lib name deleted newFm p ?h1"
      using unf d by simp
    from propagate_events[of lib name deleted newFm p ?h1] obtain rest where
      "events (fst (snd r)) = events ?h1 @ rest" using r by auto
    then show ?thesis using d True by simp
  next
    case False
    then have r: "r = (case modify ?h1 (file_path tf)
                              (revertedContent lib prev (fileText h (file_path tf))) of
                         Inl e \<Rightarrow> (p, ?h1, Some e) | Inr h2 \<Rightarrow> (p, h2, None))"
      using unf d by simp
    show ?thesis using d False r by (simp add: modify_def)
  qed
qed

text \<open>
  In \<open>vault_A\<close> the user declines: the note would lose its empty \<open>rating\<close>; the run
  consists of the question and the write of the template, and the plugin's state is the
  one before.
\<close>

theorem destructive_change_asks_first_witness:
  "tagsInclude vault_A ''note.md'' ''mt/Book'' = Inr True
   \<and> hasOwn bound_note_data ''rating''
   \<and> \<not> hasOwn (mergeFrontmatter ''mt''
                  (Some [(''tags'', JStr ''mt/Book''), (''title'', JStr ''Emma'')])
                  [(''author'', JStr ''unknown'')]) ''rating''
   \<and> \<not> confirmAnswer vault_A (confirmMessage ''Book'' [''rating''])
   \<and> fst (syncNotesWithTemplate sample_lib plugin_A0 vault_A ''Book'') = plugin_A0
   \<and> fileText (fst (snd (syncNotesWithTemplate sample_lib plugin_A0 vault_A ''Book''))) ''note.md''
       = bound_note_text
   \<and> events (fst (snd (syncNotesWithTemplate sample_lib plugin_A0 vault_A ''Book'')))
       = [Confirm (confirmMessage ''Book'' [''rating'']),
          Modify ''Book.md''
            ''---\<newline>rating: n/a\<newline>author: unknown\<newline>---\<newline>\<newline>Notes on books'']"
proof -
  have e: "getAbstractFileByPath vault_A (''Book'' @ ''.md'') = Some (TFile (mkfile ''Book.md'' ''Book''))"
    "extractFrontmatter sample_lib (fileText vault_A (file_path (mkfile ''Book.md'' ''Book'')))
       = Inr (Some [(''author'', JStr ''unknown'')])"
    "[''rating''] = getDeletedProperties old_template_data [(''author'', JStr ''unknown'')]"
    "old_template_data = (case previousTemplateState plugin_A0 ''Book'' of None \<Rightarrow> [] | Some d \<Rightarrow> d)"
    "mkfile ''note.md'' ''note'' \<in> set (markdownFiles vault_A)"
    "tagsInclude vault_A (file_path (mkfile ''note.md'' ''note''))
       (tagBase (settings_A plugin_A0) @ ''/'' @ ''Book'') = Inr True"
    "extractFrontmatter sample_lib (fileText vault_A (file_path (mkfile ''note.md'' ''note'')))
       = Inr (Some bound_note_data)"
    "hasOwn bound_note_data ''rating''"
    "deleteEmptyProps (Some bound_note_data) [''rating'']
       = Inr (Some [(''tags'', JStr ''mt/Book''), (''title'', JStr ''Emma'')])"
    "\<not> hasOwn (mergeFrontmatter (tagBase (settings_A plugin_A0))
                  (Some [(''tags'', JStr ''mt/Book''), (''title'', JStr ''Emma'')])
                  [(''author'', JStr ''unknown'')]) ''rating''"
    by code_simp+
  have v: "tagsInclude vault_A ''note.md'' ''mt/Book'' = Inr True"
    "\<not> hasOwn (mergeFrontmatter ''mt''
                  (Some [(''tags'', JStr ''mt/Book''), (''title'', JStr ''Emma'')])
                  [(''author'', JStr ''unknown'')]) ''rating''"
    "\<not> confirmAnswer vault_A (confirmMessage ''Book'' [''rating''])"
    "\<not> rejectsWrite vault_A (file_path (mkfile ''Book.md'' ''Book''))"
    "file_path (mkfile ''Book.md'' ''Book'') = ''Book.md''"
    "''note.md'' \<noteq> file_path (mkfile ''Book.md'' ''Book'')"
    "fileText vault_A ''note.md'' = bound_note_text"
    "events vault_A = []"
    "revertedContent sample_lib old_template_data (fileText vault_A ''Book.md'')
       = ''---\<newline>rating: n/a\<newline>author: unknown\<newline>---\<newline>\<newline>Notes on books''"
    by code_simp+
  from destructive_change_asks_first
         [OF e(1) e(2) e(4) e(3) e(5) e(6) e(7) e(8) e(9) e(10) refl refl]
  show ?thesis using e(8) v by simp
qed

text \<open>
  C4 as the specification states it fails in main.ts, which never asks: the template
  \<open>mt/Book.md\<close> of \<open>sync_vault\<close> dropped \<open>rating\<close>, whose last synchronised value was
  \<open>n/a\<close>; the bound note loses its \<open>rating\<close>, and the only effect of
  \<open>handleTemplateMetadataChange\<close> is that write.
\<close>

theorem no_confirmation_counterexample:
  "map_of old_template_data ''rating'' = Some (JStr ''n/a'')
   \<and> templateCache sync_plugin ''mt/Book.md'' = Some old_template_data
   \<and> hasOwn (frontmatterOrEmpty sync_vault ''note.md'') ''rating''
   \<and> events sync_vault = []
   \<and> snd (snd (handleTemplateMetadataChange sample_lib sync_plugin sync_vault
                  (mkfile ''mt/Book.md'' ''Book''))) = None
   \<and> events (fst (snd (handleTemplateMetadataChange sample_lib sync_plugin sync_vault
                         (mkfile ''mt/Book.md'' ''Book''))))
       = [Modify ''note.md'' ''---\<newline>tags: mt/Book\<newline>title: Emma\<newline>---\<newline>\<newline>body'']"
  by code_simp
section \<open>Parsing and the body\<close>

text \<open>
  C9, as the code has it. \<open>extractFrontmatter\<close> always returns: it never throws, whatever
  the YAML parser does. When the text does not start with a delimited block, or the
  parser rejects the block, the result is the empty mapping. In the first case the body
  that \<open>updateContentWithFrontmatter\<close> keeps is the whole text, trimmed; in the second it
  is the text after the block: the malformed block is not part of the body.
\<close>

theorem extractFrontmatter_fails_soft:
  "(\<exists>d. extractFrontmatter lib content = Inr d)
   \<and> (frontmatterMatch content = None \<longrightarrow>
        extractFrontmatter lib content = Inr (Some []) \<and> existingBody content = trim content)
   \<and> (\<forall>block e x. frontmatterMatch content = Some (block, e) \<and> yaml_parse lib block = Inl x \<longrightarrow>
        extractFrontmatter lib content = Inr (Some [])
        \<and> existingBody content = trim (drop e content))"
  by (auto simp: extractFrontmatter_def try_catch_def existingBody_def afterFrontmatter_def
           split: option.splits sum.splits)

text \<open>
  A text with a rule but no leading block, and a text whose block has an unclosed flow
  sequence.
\<close>

theorem extractFrontmatter_fails_soft_witness:
  "frontmatterMatch ''# title\<newline>---\<newline>text'' = None
   \<and> extractFrontmatter sample_lib ''# title\<newline>---\<newline>text'' = Inr (Some [])
   \<and> existingBody ''# title\<newline>---\<newline>text'' = ''# title\<newline>---\<newline>text''
   \<and> frontmatterMatch broken_block_text = Some (''a: ['', 12)
   \<and> yaml_parse sample_lib ''a: ['' = Inl YAMLParseError
   \<and> extractFrontmatter sample_lib broken_block_text = Inr (Some [])"
proof -
  have e: "frontmatterMatch ''# title\<newline>---\<newline>text'' = None"
    "trim ''# title\<newline>---\<newline>text'' = ''# title\<newline>---\<newline>text''"
    "frontmatterMatch broken_block_text = Some (''a: ['', 12)"
    "yaml_parse sample_lib ''a: ['' = Inl YAMLParseError"
    by code_simp+
  show ?thesis
    using extractFrontmatter_fails_soft[of sample_lib "''# title\<newline>---\<newline>text''"]
          extractFrontmatter_fails_soft[of sample_lib broken_block_text] e
    by simp
qed

text \<open>
  C9 as the specification states it fails: the block of \<open>broken_block_text\<close> is
  malformed, the fields are empty, and the body is \<open>body\<close>, not the entire text, for
  \<open>updateContentWithFrontmatter\<close> and for \<open>replaceFrontMatter\<close> alike; the next write
  replaces the malformed block.
\<close>

theorem malformed_block_is_body_counterexample:
  "frontmatterMatch broken_block_text = Some (''a: ['', 12)
   \<and> yaml_parse sample_lib ''a: ['' = Inl YAMLParseError
   \<and> extractFrontmatter sample_lib broken_block_text = Inr (Some [])
   \<and> existingBody broken_block_text = ''body''
   \<and> restOfContent broken_block_text = ''body''
   \<and> trim broken_block_text = ''---\<newline>a: [\<newline>---\<newline>body''
   \<and> updateContentWithFrontmatter sample_lib broken_block_text [(''author'', JStr ''Jane'')]
       = ''---\<newline>author: Jane\<newline>---\<newline>\<newline>body''"
  by code_simp

section \<open>The round trip through replaceFrontMatter\<close>

lemma trimStart_idem: "trimStart (trimStart s) = trimStart s"
  by (simp add: trimStart_def)

lemma trimStart_restOfContent: "trimStart (restOfContent content) = restOfContent content"
  by (simp add: restOfContent_def Let_def trimStart_idem)

text \<open>
  When the serialised mapping contains no three dashes, writing keeps the body that
  \<open>replaceFrontMatter\<close> sees, and the text written is a fixed point of further writes of
  the same mapping.
\<close>

lemma restOfContent_replaceFrontMatter:
  assumes "\<not> includes_str (''\<newline>'' @ yaml_dump lib d) ''---''"
    and "last (''\<newline>'' @ yaml_dump lib d) \<noteq> CHR ''-''"
  shows "restOfContent (replaceFrontMatter lib content d) = restOfContent content"
proof -
  have "\<not> includes_str [] ''---''" by (simp add: includes_str_def)
  from restOfContent_two_markers[OF this _ assms(1), of "''\<newline>\<newline>'' @ restOfContent content"]
  have "restOfContent (''---'' @ (''\<newline>'' @ yaml_dump lib d) @ ''---''
                         @ ''\<newline>\<newline>'' @ restOfContent content)
          = trimStart (''\<newline>\<newline>'' @ restOfContent content)"
    using assms(2) by simp
  also have "\<dots> = restOfContent content"
    using trimStart_restOfContent[of content] by (simp add: trimStart_def is_ws_def)
  finally show ?thesis by (simp add: replaceFrontMatter_def)
qed

text \<open>
  The fields do come back: when the YAML library reads back the mapping it dumped, and
  the dump has no line starting with three dashes, \<open>extractFrontmatter\<close> finds the fields
  in the text that \<open>replaceFrontMatter\<close> wrote.
\<close>

lemma extractFrontmatter_replaceFrontMatter:
  assumes "yaml_dump lib d = S @ ''\<newline>''" and "\<not> includes_str S fmClose"
    and "yaml_parse lib S = Inr (Some d)"
  shows "extractFrontmatter lib (replaceFrontMatter lib content d) = Inr (Some d)"
proof -
  have "replaceFrontMatter lib content d
          = fmOpen @ S @ fmClose @ (''\<newline>\<newline>'' @ restOfContent content)"
    using assms(1) by (simp add: replaceFrontMatter_def fmOpen_def fmClose_def)
  then show ?thesis
    using assms(3)
    by (simp add: frontmatterMatch_block[OF assms(2)] extractFrontmatter_def try_catch_def)
qed

text \<open>
  C8 fails on the code. The text \<open>marker_in_value_text\<close> is well formed: a block with
  \<open>title: a --- b\<close>, a blank line, the body \<open>body\<close>; the regular expression of
  \<open>extractFrontmatter\<close> finds the block and the body. \<open>replaceFrontMatter\<close> takes the
  dashes inside the title for the end of the block: its body starts in the middle of
  the title, and writing the parsed fields back gives a text with a different body,
  which grows again on the next write.
\<close>

theorem replaceFrontMatter_roundtrip_fails:
  "extractFrontmatter sample_lib marker_in_value_text = Inr (Some [(''title'', JStr ''a --- b'')])
   \<and> existingBody marker_in_value_text = ''body''
   \<and> restOfContent marker_in_value_text = ''b\<newline>---\<newline>\<newline>body''
   \<and> replaceFrontMatter sample_lib marker_in_value_text [(''title'', JStr ''a --- b'')]
       = ''---\<newline>title: a --- b\<newline>---\<newline>\<newline>b\<newline>---\<newline>\<newline>body''
   \<and> restOfContent (replaceFrontMatter sample_lib marker_in_value_text [(''title'', JStr ''a --- b'')])
       = ''b\<newline>---\<newline>\<newline>b\<newline>---\<newline>\<newline>body''"
  by code_simp

end
